theory Spec2Isabelle
  imports Main
begin

section \<open>Byte strings and the string library\<close>

text \<open>
  Go strings and byte slices are sequences of bytes; the model uses \<open>string\<close>
  (a list of 8-bit \<open>char\<close>s), so a code point beyond ASCII is the several bytes of its
  UTF-8 encoding, as in the program.
\<close>

definition HasPrefix :: "string \<Rightarrow> string \<Rightarrow> bool" where
  "HasPrefix s p = (take (length p) s = p)"

definition HasSuffix :: "string \<Rightarrow> string \<Rightarrow> bool" where
  "HasSuffix s p = (drop (length s - length p) s = p \<and> length p \<le> length s)"

fun Contains :: "string \<Rightarrow> string \<Rightarrow> bool" where
  "Contains [] sub = (sub = [])"
| "Contains (c # s) sub = (if HasPrefix (c # s) sub then True else Contains s sub)"

text \<open>
  \<open>unicode.IsSpace\<close>: the six ASCII white-space bytes, and the UTF-8 encodings of
  U+0085, U+00A0, U+1680, U+2000..U+200A, U+2028, U+2029, U+202F, U+205F and U+3000.
  No encoding in the list starts with a continuation byte, so a byte-wise scan meets
  exactly the white-space runes that Go's rune-wise scan meets.
\<close>

definition space_runes :: "string list" where
  "space_runes =
     [[CHR 0x09], [CHR 0x0A], [CHR 0x0B], [CHR 0x0C], [CHR 0x0D], [CHR 0x20],
      [CHR 0xC2, CHR 0x85], [CHR 0xC2, CHR 0xA0],
      [CHR 0xE1, CHR 0x9A, CHR 0x80],
      [CHR 0xE2, CHR 0x80, CHR 0x80], [CHR 0xE2, CHR 0x80, CHR 0x81],
      [CHR 0xE2, CHR 0x80, CHR 0x82], [CHR 0xE2, CHR 0x80, CHR 0x83],
      [CHR 0xE2, CHR 0x80, CHR 0x84], [CHR 0xE2, CHR 0x80, CHR 0x85],
      [CHR 0xE2, CHR 0x80, CHR 0x86], [CHR 0xE2, CHR 0x80, CHR 0x87],
      [CHR 0xE2, CHR 0x80, CHR 0x88], [CHR 0xE2, CHR 0x80, CHR 0x89],
      [CHR 0xE2, CHR 0x80, CHR 0x8A],
      [CHR 0xE2, CHR 0x80, CHR 0xA8], [CHR 0xE2, CHR 0x80, CHR 0xA9],
      [CHR 0xE2, CHR 0x80, CHR 0xAF], [CHR 0xE2, CHR 0x81, CHR 0x9F],
      [CHR 0xE3, CHR 0x80, CHR 0x80]]"

fun first_prefix :: "string list \<Rightarrow> string \<Rightarrow> nat" where
  "first_prefix [] s = 0"
| "first_prefix (q # qs) s = (if HasPrefix s q then length q else first_prefix qs s)"

definition space_len :: "string \<Rightarrow> nat" where
  \<comment> \<open>number of bytes of the white-space rune at the head of \<open>s\<close>; 0 when there is none\<close>
  "space_len s = (case s of [] \<Rightarrow> 0 | _ # _ \<Rightarrow> first_prefix space_runes s)"

definition space_len_back :: "string \<Rightarrow> nat" where
  \<comment> \<open>the same for the rune that ends at the head of the reversed string\<close>
  "space_len_back r = (case r of [] \<Rightarrow> 0 | _ # _ \<Rightarrow> first_prefix (map rev space_runes) r)"

function TrimLeftSpace :: "string \<Rightarrow> string" where
  "TrimLeftSpace s = (if space_len s = 0 then s else TrimLeftSpace (drop (space_len s) s))"
  by pat_completeness auto
termination
  by (relation "measure length") (auto simp: space_len_def split: list.splits)

function trim_back :: "string \<Rightarrow> string" where
  "trim_back r = (if space_len_back r = 0 then r else trim_back (drop (space_len_back r) r))"
  by pat_completeness auto
termination
  by (relation "measure length") (auto simp: space_len_back_def split: list.splits)

definition TrimSpace :: "string \<Rightarrow> string" where
  "TrimSpace s = rev (trim_back (rev (TrimLeftSpace s)))"

section \<open>Regular expressions\<close>

text \<open>
  The patterns of the program are sequences of literals, character classes, optional
  bytes, stars over one class, one capture group and (in \<open>timePattern\<close>) anchors and an
  alternation of literals. Go's \<open>regexp\<close> returns, at the leftmost position where the
  pattern matches, the match that a backtracking search finds first: a greedy operator
  tries the longer alternative first, a lazy one the shorter. \<open>rmatch\<close> is that search.

  Every class below is either "any" or a set of ASCII bytes, and every literal is
  ASCII, so matching bytes gives the same matches as Go's matching of UTF-8 runes.
\<close>

datatype cls =
    AnyC        \<comment> \<open>\<open>.\<close> under \<open>(?s)\<close>, and \<open>[\s\S]\<close>\<close>
  | SpaceC      \<comment> \<open>\<open>\s\<close>: tab, newline, form feed, carriage return, space\<close>
  | NotRBrace   \<comment> \<open>\<open>[^}]\<close>\<close>
  | DigitC      \<comment> \<open>\<open>\d\<close>\<close>
  | AlphaC      \<comment> \<open>\<open>[a-zA-Z]\<close>\<close>
  | AlnumC      \<comment> \<open>\<open>[a-zA-Z0-9]\<close>\<close>

definition is_digit :: "char \<Rightarrow> bool" where
  "is_digit c = ((0x30::nat) \<le> of_char c \<and> of_char c \<le> (0x39::nat))"

definition is_upper :: "char \<Rightarrow> bool" where
  "is_upper c = ((0x41::nat) \<le> of_char c \<and> of_char c \<le> (0x5A::nat))"

definition is_lower :: "char \<Rightarrow> bool" where
  "is_lower c = ((0x61::nat) \<le> of_char c \<and> of_char c \<le> (0x7A::nat))"

fun in_cls :: "cls \<Rightarrow> char \<Rightarrow> bool" where
  "in_cls AnyC c = True"
| "in_cls SpaceC c = (c = CHR 0x09 \<or> c = CHR 0x0A \<or> c = CHR 0x0C \<or> c = CHR 0x0D \<or> c = CHR '' '')"
| "in_cls NotRBrace c = (c \<noteq> CHR ''}'')"
| "in_cls DigitC c = is_digit c"
| "in_cls AlphaC c = (is_lower c \<or> is_upper c)"
| "in_cls AlnumC c = (is_lower c \<or> is_upper c \<or> is_digit c)"

datatype atom =
    Lit char            \<comment> \<open>one literal byte\<close>
  | Cls cls             \<comment> \<open>one byte of a class\<close>
  | Opt char            \<comment> \<open>\<open>c?\<close>, greedy\<close>
  | StarG cls           \<comment> \<open>\<open>k*\<close>, greedy\<close>
  | StarL cls           \<comment> \<open>\<open>k*?\<close>, lazy\<close>
  | GOpen               \<comment> \<open>\<open>(\<close> of capture group 1\<close>
  | GClose              \<comment> \<open>\<open>)\<close> of capture group 1\<close>
  | AltS "string list"  \<comment> \<open>\<open>(?:w1|w2|...)\<close> over literal words, in order\<close>
  | Bol                 \<comment> \<open>\<open>^\<close>: start of the text\<close>
  | Eol                 \<comment> \<open>\<open>$\<close>: end of the text\<close>

text \<open>
  \<open>rmatch re b s go gc\<close> matches \<open>re\<close> at the head of \<open>s\<close>; \<open>b\<close> says that \<open>s\<close> is the
  whole text (no byte lies before it); \<open>go\<close> and \<open>gc\<close> are the suffixes of the text at which
  group 1 opened and closed. The result is the text left after the match and the bytes
  of group 1.
\<close>

fun atom_weight :: "atom \<Rightarrow> nat" where
  "atom_weight (AltS ws) = Suc (length ws)"
| "atom_weight a = 1"

function rmatch :: "atom list \<Rightarrow> bool \<Rightarrow> string \<Rightarrow> string \<Rightarrow> string \<Rightarrow> (string \<times> string) option" where
  "rmatch [] b s go gc = Some (s, take (length go - length gc) go)"
| "rmatch (Lit c # re) b [] go gc = None"
| "rmatch (Lit c # re) b (x # xs) go gc = (if x = c then rmatch re False xs go gc else None)"
| "rmatch (Cls k # re) b [] go gc = None"
| "rmatch (Cls k # re) b (x # xs) go gc = (if in_cls k x then rmatch re False xs go gc else None)"
| "rmatch (Opt c # re) b [] go gc = rmatch re b [] go gc"
| "rmatch (Opt c # re) b (x # xs) go gc =
     (if x = c
      then (case rmatch re False xs go gc of
              Some r \<Rightarrow> Some r
            | None \<Rightarrow> rmatch re b (x # xs) go gc)
      else rmatch re b (x # xs) go gc)"
| "rmatch (StarG k # re) b [] go gc = rmatch re b [] go gc"
| "rmatch (StarG k # re) b (x # xs) go gc =
     (if in_cls k x
      then (case rmatch (StarG k # re) False xs go gc of
              Some r \<Rightarrow> Some r
            | None \<Rightarrow> rmatch re b (x # xs) go gc)
      else rmatch re b (x # xs) go gc)"
| "rmatch (StarL k # re) b [] go gc = rmatch re b [] go gc"
| "rmatch (StarL k # re) b (x # xs) go gc =
     (case rmatch re b (x # xs) go gc of
        Some r \<Rightarrow> Some r
      | None \<Rightarrow> (if in_cls k x then rmatch (StarL k # re) False xs go gc else None))"
| "rmatch (GOpen # re) b s go gc = rmatch re b s s gc"
| "rmatch (GClose # re) b s go gc = rmatch re b s go s"
| "rmatch (AltS [] # re) b s go gc = None"
| "rmatch (AltS (w # ws) # re) b s go gc =
     (if HasPrefix s w
      then (case rmatch re (b \<and> w = []) (drop (length w) s) go gc of
              Some r \<Rightarrow> Some r
            | None \<Rightarrow> rmatch (AltS ws # re) b s go gc)
      else rmatch (AltS ws # re) b s go gc)"
| "rmatch (Bol # re) b s go gc = (if b then rmatch re b s go gc else None)"
| "rmatch (Eol # re) b s go gc = (if s = [] then rmatch re b s go gc else None)"
  by pat_completeness auto
termination
  by (relation "measures [\<lambda>(re, b, s, go, gc). sum_list (map atom_weight re),
                          \<lambda>(re, b, s, go, gc). length s]") auto

text \<open>\<open>MatchString\<close>: is there a match anywhere in the text.\<close>

fun search :: "atom list \<Rightarrow> bool \<Rightarrow> string \<Rightarrow> bool" where
  "search re b [] = (rmatch re b [] [] [] \<noteq> None)"
| "search re b (x # xs) =
     (if rmatch re b (x # xs) (x # xs) (x # xs) \<noteq> None then True else search re False xs)"

definition MatchString :: "atom list \<Rightarrow> string \<Rightarrow> bool" where
  "MatchString re s = search re True s"

fun closes :: "atom list \<Rightarrow> bool" where
  \<comment> \<open>the pattern has the two literals \<open>}}\<close> next to each other\<close>
  "closes (Lit c # Lit d # re) = ((c = CHR ''}'' \<and> d = CHR ''}'') \<or> closes (Lit d # re))"
| "closes (a # re) = closes re"
| "closes [] = False"

text \<open>
  \<open>ReplaceAllFunc\<close>: from left to right, the leftmost match is replaced by \<open>repl\<close> of
  the matched bytes and of group 1, and the search goes on behind the match. Go also
  replaces a match of the empty string and then steps over one rune; no pattern given to
  \<open>ReplaceAll\<close> in this program matches the empty string (each starts with two literal
  braces, \<open>patterns_progress\<close>), so here an empty match counts as no match at that
  position.
\<close>

function replace_all :: "atom list \<Rightarrow> (string \<Rightarrow> string \<Rightarrow> string) \<Rightarrow> bool \<Rightarrow> string \<Rightarrow> string" where
  "replace_all re repl b [] = []"
| "replace_all re repl b (x # xs) =
     (case rmatch re b (x # xs) (x # xs) (x # xs) of
        None \<Rightarrow> x # replace_all re repl False xs
      | Some (rest, g1) \<Rightarrow>
          (if length rest < length (x # xs)
           then repl (take (length (x # xs) - length rest) (x # xs)) g1 @ replace_all re repl False rest
           else x # replace_all re repl False xs))"
  by pat_completeness auto
termination
  by (relation "measure (\<lambda>(re, repl, b, s). length s)") auto

definition ReplaceAllFunc :: "atom list \<Rightarrow> string \<Rightarrow> (string \<Rightarrow> string) \<Rightarrow> string" where
  "ReplaceAllFunc re src repl = replace_all re (\<lambda>m g1. repl m) True src"

definition ReplaceAll_group1 :: "atom list \<Rightarrow> string \<Rightarrow> string" where
  \<comment> \<open>\<open>re.ReplaceAll(src, []byte("$1"))\<close>: the template \<open>$1\<close> expands to group 1\<close>
  "ReplaceAll_group1 re src = replace_all re (\<lambda>m g1. g1) True src"

section \<open>The template preprocessor\<close>

definition lits :: "string \<Rightarrow> atom list" where
  "lits w = map Lit w"

definition templatePattern :: "atom list" where
  \<comment> \<open>\<open>\{\{[\s\S]*?\}\}\<close>\<close>
  "templatePattern = lits ''{{'' @ [StarL AnyC] @ lits ''}}''"

definition ifElseEndPattern :: "atom list" where
  \<comment> \<open>\<open>(?s)\{\{-?\s*if\s[^}]*\}\}(.*?)\{\{-?\s*else\s*-?\}\}.*?\{\{-?\s*end\s*-?\}\}\<close>\<close>
  "ifElseEndPattern =
     lits ''{{'' @ [Opt CHR ''-'', StarG SpaceC] @ lits ''if'' @ [Cls SpaceC, StarG NotRBrace] @ lits ''}}''
     @ [GOpen, StarL AnyC, GClose]
     @ lits ''{{'' @ [Opt CHR ''-'', StarG SpaceC] @ lits ''else'' @ [StarG SpaceC, Opt CHR ''-''] @ lits ''}}''
     @ [StarL AnyC]
     @ lits ''{{'' @ [Opt CHR ''-'', StarG SpaceC] @ lits ''end'' @ [StarG SpaceC, Opt CHR ''-''] @ lits ''}}''"

definition ifEndPattern :: "atom list" where
  \<comment> \<open>\<open>(?s)\{\{-?\s*if\s[^}]*\}\}(.*?)\{\{-?\s*end\s*-?\}\}\<close>\<close>
  "ifEndPattern =
     lits ''{{'' @ [Opt CHR ''-'', StarG SpaceC] @ lits ''if'' @ [Cls SpaceC, StarG NotRBrace] @ lits ''}}''
     @ [GOpen, StarL AnyC, GClose]
     @ lits ''{{'' @ [Opt CHR ''-'', StarG SpaceC] @ lits ''end'' @ [StarG SpaceC, Opt CHR ''-''] @ lits ''}}''"

record SourceMap =
  Original :: string
  Processed :: string

definition OriginalPosition :: "SourceMap \<Rightarrow> int \<Rightarrow> int \<Rightarrow> int \<times> int" where
  "OriginalPosition sm line col = (line, col)"

definition replaceTemplate :: "string \<Rightarrow> string" where
  "replaceTemplate m =
     (let content = TrimSpace (take (length m - 4) (drop 2 m)) in
      if HasPrefix content ''/*'' then []
      else if HasPrefix content ''if '' \<or> HasPrefix content ''if('' \<or> content = ''else''
              \<or> HasPrefix content ''else if'' then []
      else if HasPrefix content ''end'' then []
      else if HasPrefix content ''range '' then []
      else if HasPrefix content ''template '' \<or> HasPrefix content ''block '' then []
      else if HasPrefix content ''define '' then []
      else if HasPrefix content ''with '' then []
      else if HasPrefix content ''-'' then []
      else ''TMPL'')"

datatype error = ParseError string

definition Process :: "string \<Rightarrow> error + (string \<times> SourceMap)" where
  "Process input =
     (let processed = ReplaceAll_group1 ifElseEndPattern input;
          processed = ReplaceAll_group1 ifEndPattern processed;
          processed = ReplaceAllFunc templatePattern processed replaceTemplate
      in Inr (processed, \<lparr>Original = input, Processed = processed\<rparr>))"

definition ProcessFile :: "string \<Rightarrow> error + (string \<times> SourceMap)" where
  "ProcessFile content = Process content"

section \<open>Case mapping, splitting and searching\<close>

text \<open>
  \<open>strings.ToLower\<close> and \<open>strings.EqualFold\<close> work on ASCII bytes when their arguments
  are ASCII and go through Unicode's case tables otherwise. The tables belong to Go's
  library; they are the parameter \<open>U\<close> of every function that maps or folds case, so
  each result below holds whatever the tables say.
\<close>

record unicode =
  uni_ToLower :: "string \<Rightarrow> string"
  uni_EqualFold :: "string \<Rightarrow> string \<Rightarrow> bool"

definition is_ascii :: "string \<Rightarrow> bool" where
  "is_ascii s = list_all (\<lambda>c. of_char c < (0x80::nat)) s"

definition lower_byte :: "char \<Rightarrow> char" where
  \<comment> \<open>\<open>c += 'a' - 'A'\<close> for \<open>'A' <= c <= 'Z'\<close>: these bytes have bit 5 clear, and adding
      0x20 sets it (\<open>lower_byte_add\<close>)\<close>
  "lower_byte c =
     (if is_upper c
      then (case c of Char b0 b1 b2 b3 b4 b5 b6 b7 \<Rightarrow> Char b0 b1 b2 b3 b4 True b6 b7)
      else c)"

definition ToLower :: "unicode \<Rightarrow> string \<Rightarrow> string" where
  "ToLower U s = (if is_ascii s then map lower_byte s else uni_ToLower U s)"

definition EqualFold :: "unicode \<Rightarrow> string \<Rightarrow> string \<Rightarrow> bool" where
  "EqualFold U s t =
     (if is_ascii s \<and> is_ascii t then map lower_byte s = map lower_byte t
      else uni_EqualFold U s t)"

function fields_from :: "string \<Rightarrow> string \<Rightarrow> string list" where
  "fields_from cur [] = (if cur = [] then [] else [cur])"
| "fields_from cur (x # xs) =
     (if space_len (x # xs) = 0 then fields_from (cur @ [x]) xs
      else (if cur = [] then [] else [cur]) @ fields_from [] (drop (space_len (x # xs)) (x # xs)))"
  by pat_completeness auto
termination
  by (relation "measure (\<lambda>(cur, s). length s)") auto

definition Fields :: "string \<Rightarrow> string list" where
  \<comment> \<open>\<open>strings.Fields\<close>: the maximal runs of bytes between white-space runes\<close>
  "Fields s = fields_from [] s"

fun split_from :: "char \<Rightarrow> string \<Rightarrow> string \<Rightarrow> string list" where
  "split_from sep cur [] = [cur]"
| "split_from sep cur (x # xs) =
     (if x = sep then cur # split_from sep [] xs else split_from sep (cur @ [x]) xs)"

definition Split :: "string \<Rightarrow> char \<Rightarrow> string list" where
  \<comment> \<open>\<open>strings.Split\<close> and \<open>bytes.Split\<close> with a separator of one byte\<close>
  "Split s sep = split_from sep [] s"

fun index_from :: "char \<Rightarrow> int \<Rightarrow> string \<Rightarrow> int" where
  "index_from c i [] = -1"
| "index_from c i (x # xs) = (if x = c then i else index_from c (i + 1) xs)"

definition Index :: "string \<Rightarrow> char \<Rightarrow> int" where
  \<comment> \<open>\<open>strings.Index\<close> with a substring of one byte: the first position, or -1\<close>
  "Index s c = index_from c 0 s"

definition SplitN2 :: "string \<Rightarrow> char \<Rightarrow> string list" where
  \<comment> \<open>\<open>strings.SplitN(s, sep, 2)\<close> with a separator of one byte\<close>
  "SplitN2 s sep =
     (let i = Index s sep in
      if i = -1 then [s] else [take (nat i) s, drop (nat i + 1) s])"

definition TrimPrefix :: "string \<Rightarrow> string \<Rightarrow> string" where
  "TrimPrefix s p = (if HasPrefix s p then drop (length p) s else s)"

section \<open>The document model\<close>

text \<open>
  \<open>html_node\<close> is the tree of \<open>golang.org/x/net/html\<close>: the sibling chain
  \<open>FirstChild\<close>/\<open>NextSibling\<close> is the list of children. \<open>node\<close> is the program's
  \<open>Node\<close>: the embedded \<open>html.Node\<close> gives \<open>Type\<close>, \<open>Data\<close> and \<open>Attr\<close>. The \<open>Parent\<close>
  back-reference is not stored; the one function that reads it, \<open>buildNodeTree\<close>, takes
  the parent as its argument. Every node that the builder makes embeds an \<open>html.Node\<close>,
  so the guards \<open>n.Node == nil\<close> of \<open>HasAttr\<close> and \<open>GetAttr\<close> have no counterpart.
\<close>

datatype NodeType =
  ErrorNode | TextNode | DocumentNode | ElementNode | CommentNode | DoctypeNode | RawNode

record Attribute =
  Key :: string
  Val :: string

datatype html_node =
  HtmlNode (hType: NodeType) (hData: string) (hAttr: "Attribute list") (hChildren: "html_node list")

datatype node =
  Node (Type: NodeType) (Data: string) (Attr: "Attribute list") (Line: int) (Col: int)
       (Children: "node list")

record Document =
  Root :: "node option"
  Filename :: string
  IsTemplateFragment :: bool
  sourceMap :: "SourceMap option"

fun attr_find :: "unicode \<Rightarrow> Attribute list \<Rightarrow> string \<Rightarrow> Attribute option" where
  "attr_find U [] name = None"
| "attr_find U (a # as) name = (if EqualFold U (Key a) name then Some a else attr_find U as name)"

definition HasAttr :: "unicode \<Rightarrow> node \<Rightarrow> string \<Rightarrow> bool" where
  "HasAttr U n name = (attr_find U (Attr n) name \<noteq> None)"

definition GetAttr :: "unicode \<Rightarrow> node \<Rightarrow> string \<Rightarrow> string" where
  "GetAttr U n name = (case attr_find U (Attr n) name of None \<Rightarrow> [] | Some a \<Rightarrow> Val a)"

definition IsElement :: "unicode \<Rightarrow> node \<Rightarrow> string \<Rightarrow> bool" where
  "IsElement U n tag = (Type n = ElementNode \<and> EqualFold U (Data n) tag)"

text \<open>
  \<open>Walk\<close>: the callback sees each node before its children and stops the traversal by
  returning false. The callbacks of the rules append to variables of the enclosing
  function; here the callback takes that state and returns it updated.
\<close>

fun walk :: "(node \<Rightarrow> 's \<Rightarrow> bool \<times> 's) \<Rightarrow> node \<Rightarrow> 's \<Rightarrow> bool \<times> 's"
  and walk_children :: "(node \<Rightarrow> 's \<Rightarrow> bool \<times> 's) \<Rightarrow> node list \<Rightarrow> 's \<Rightarrow> bool \<times> 's" where
  "walk fn (Node t d a l c cs) s =
     (case fn (Node t d a l c cs) s of
        (False, s') \<Rightarrow> (False, s')
      | (True, s') \<Rightarrow> walk_children fn cs s')"
| "walk_children fn [] s = (True, s)"
| "walk_children fn (c # cs) s =
     (case walk fn c s of
        (False, s') \<Rightarrow> (False, s')
      | (True, s') \<Rightarrow> walk_children fn cs s')"

definition Walk :: "Document \<Rightarrow> (node \<Rightarrow> 's \<Rightarrow> bool \<times> 's) \<Rightarrow> 's \<Rightarrow> 's" where
  "Walk d fn s = (case Root d of None \<Rightarrow> s | Some r \<Rightarrow> snd (walk fn r s))"

fun preorder :: "node \<Rightarrow> node list" where
  "preorder (Node t d a l c cs) = Node t d a l c cs # concat (map preorder cs)"

section \<open>The document builder\<close>

fun buildNodeTree :: "html_node \<Rightarrow> node option \<Rightarrow> node" where
  "buildNodeTree (HtmlNode t d a cs) parent =
     (let line = (case parent of None \<Rightarrow> 1 | Some p \<Rightarrow> Line p);
          col = (case parent of None \<Rightarrow> 1 | Some p \<Rightarrow> Col p)
      in Node t d a line col (map (\<lambda>c. buildNodeTree c (Some (Node t d a line col []))) cs))"

text \<open>
  \<open>html.Parse\<close> and \<open>html.ParseFragment\<close> belong to \<open>golang.org/x/net/html\<close>; they are
  the parameters \<open>html_Parse\<close> and \<open>html_ParseFragment\<close>.
\<close>

definition Parse :: "(string \<Rightarrow> error + html_node) \<Rightarrow> string \<Rightarrow> string \<Rightarrow> error + Document" where
  "Parse html_Parse filename content =
     (case Process content of
        Inl err \<Rightarrow> Inl err
      | Inr (processed, sm) \<Rightarrow>
          (case html_Parse processed of
             Inl err \<Rightarrow> Inl err
           | Inr root \<Rightarrow>
               Inr \<lparr>Root = Some (buildNodeTree root None), Filename = filename,
                    IsTemplateFragment = False, sourceMap = Some sm\<rparr>))"

definition ParseFragment ::
  "(string \<Rightarrow> html_node \<Rightarrow> error + html_node list) \<Rightarrow> string \<Rightarrow> string \<Rightarrow> error + Document" where
  "ParseFragment html_ParseFragment filename content =
     (let isTemplateFragment = HasPrefix (TrimSpace content) ''{{define'' in
      case Process content of
        Inl err \<Rightarrow> Inl err
      | Inr (processed, sm) \<Rightarrow>
          (let context = HtmlNode ElementNode ''body'' [] [] in
           case html_ParseFragment processed context of
             Inl err \<Rightarrow> Inl err
           | Inr nodes \<Rightarrow>
               (let syntheticRoot = Node DocumentNode [] [] 1 1 [] in
                Inr \<lparr>Root = Some (Node DocumentNode [] [] 1 1
                                   (map (\<lambda>n. buildNodeTree n (Some syntheticRoot)) nodes)),
                     Filename = filename, IsTemplateFragment = isTemplateFragment,
                     sourceMap = Some sm\<rparr>)))"

definition ParseReader ::
  "(string \<Rightarrow> error + html_node) \<Rightarrow> string \<Rightarrow> error + string \<Rightarrow> error + Document" where
  \<comment> \<open>the argument \<open>r\<close> is the outcome of \<open>io.ReadAll\<close>\<close>
  "ParseReader html_Parse filename r =
     (case r of Inl err \<Rightarrow> Inl err | Inr content \<Rightarrow> Parse html_Parse filename content)"

section \<open>Results\<close>

text \<open>
  The rule identifiers and the two severities are constants of the package \<open>rules\<close>;
  they keep their names.
\<close>

datatype RuleId = RuleHTMXAttributes | RuleValidFor | RuleUnrecognizedCharRef

datatype Severity = Error | Warning

record Result =
  Rule :: RuleId
  Message :: string
  ResFilename :: string
  ResLine :: int
  ResCol :: int
  Severity :: Severity

definition sq :: "string \<Rightarrow> string" where
  \<comment> \<open>\<open>s\<close> between single quotes\<close>
  "sq s = [CHR 0x27] @ s @ [CHR 0x27]"

definition mkResult :: "RuleId \<Rightarrow> string \<Rightarrow> string \<Rightarrow> int \<Rightarrow> int \<Rightarrow> Severity \<Rightarrow> Result" where
  "mkResult rule msg filename line col sev =
     \<lparr>Rule = rule, Message = msg, ResFilename = filename, ResLine = line, ResCol = col,
      Severity = sev\<rparr>"

section \<open>The htmx attribute rule\<close>

record HTMXAttributes =
  htmxEnabled :: bool
  htmxVersion :: string

definition Configure :: "HTMXAttributes \<Rightarrow> bool \<Rightarrow> string \<Rightarrow> HTMXAttributes" where
  "Configure r enabled version = r\<lparr>htmxEnabled := enabled, htmxVersion := version\<rparr>"

text \<open>A Go \<open>map[string]bool\<close> that holds only \<open>true\<close> is the list of its keys.\<close>

definition validSwapValues :: "string list" where
  "validSwapValues =
     [''innerhtml'', ''outerhtml'', ''beforebegin'', ''afterbegin'', ''beforeend'', ''afterend'',
      ''delete'', ''none'', ''textcontent'', ''upsert'']"

definition validSwapModifiers :: "string list" where
  "validSwapModifiers =
     [''swap'', ''settle'', ''scroll'', ''show'', ''focus-scroll'', ''transition'', ''ignoreTitle'']"

definition validTriggerModifiers :: "string list" where
  "validTriggerModifiers =
     [''once'', ''changed'', ''delay'', ''throttle'', ''from'', ''target'', ''consume'', ''queue'',
      ''root'', ''threshold'']"

definition timePattern :: "atom list" where
  \<comment> \<open>\<open>^\d+(?:ms|s)$\<close>\<close>
  "timePattern = [Bol, Cls DigitC, StarG DigitC, AltS [''ms'', ''s''], Eol]"

definition queueModes :: "string list" where
  "queueModes = [''first'', ''last'', ''all'', ''none'']"

definition knownDOMEvents :: "string list" where
  "knownDOMEvents =
     [''click'', ''dblclick'', ''mousedown'', ''mouseup'',
      ''mousemove'', ''mouseenter'', ''mouseleave'', ''mouseover'', ''mouseout'',
      ''keydown'', ''keyup'', ''keypress'',
      ''submit'', ''change'', ''input'', ''focus'', ''blur'', ''reset'',
      ''invalid'', ''select'',
      ''load'', ''unload'', ''resize'', ''scroll'', ''error'',
      ''beforeunload'', ''hashchange'', ''popstate'',
      ''drag'', ''dragstart'', ''dragend'', ''dragover'',
      ''dragenter'', ''dragleave'', ''drop'',
      ''touchstart'', ''touchend'', ''touchmove'', ''touchcancel'',
      ''pointerdown'', ''pointerup'', ''pointermove'', ''pointerenter'',
      ''pointerleave'', ''pointerover'', ''pointerout'', ''pointercancel'',
      ''animationstart'', ''animationend'', ''animationiteration'',
      ''transitionstart'', ''transitionend'', ''transitionrun'', ''transitioncancel'',
      ''copy'', ''cut'', ''paste'',
      ''play'', ''pause'', ''ended'', ''volumechange'', ''seeking'',
      ''seeked'', ''timeupdate'', ''loadeddata'', ''loadedmetadata'',
      ''contextmenu'', ''wheel'', ''compositionstart'', ''compositionend'']"

definition knownHTMXv2Events :: "string list" where
  "knownHTMXv2Events =
     [''htmx:abort'', ''htmx:afterOnLoad'', ''htmx:afterProcessNode'', ''htmx:afterRequest'',
      ''htmx:afterSettle'', ''htmx:afterSwap'', ''htmx:beforeCleanupElement'',
      ''htmx:beforeOnLoad'', ''htmx:beforeProcessNode'', ''htmx:beforeRequest'',
      ''htmx:beforeSend'', ''htmx:beforeSwap'', ''htmx:beforeTransition'',
      ''htmx:configRequest'', ''htmx:confirm'', ''htmx:historyCacheError'',
      ''htmx:historyCacheHit'', ''htmx:historyCacheMiss'', ''htmx:historyCacheMissLoad'',
      ''htmx:historyCacheMissLoadError'', ''htmx:historyRestore'', ''htmx:beforeHistorySave'',
      ''htmx:beforeHistoryUpdate'', ''htmx:load'', ''htmx:noSSESourceError'',
      ''htmx:oobAfterSwap'', ''htmx:oobBeforeSwap'', ''htmx:oobErrorNoTarget'',
      ''htmx:onLoadError'', ''htmx:prompt'', ''htmx:pushedIntoHistory'',
      ''htmx:replacedInHistory'', ''htmx:responseError'', ''htmx:sendAbort'',
      ''htmx:sendError'', ''htmx:sseError'', ''htmx:swapError'', ''htmx:targetError'',
      ''htmx:timeout'', ''htmx:trigger'', ''htmx:validateUrl'', ''htmx:validation:validate'',
      ''htmx:validation:failed'', ''htmx:validation:halted'', ''htmx:xhr:abort'',
      ''htmx:xhr:loadstart'', ''htmx:xhr:loadend'', ''htmx:xhr:progress'']"

definition knownHTMXv4Phases :: "string list" where
  "knownHTMXv4Phases = [''before'', ''after'', ''error'', ''finally'']"

definition knownHTMXv4Actions :: "string list" where
  "knownHTMXv4Actions =
     [''request'', ''swap'', ''settle'', ''send'', ''process'', ''cleanup'', ''onLoad'',
      ''transition'', ''viewTransition'', ''history'', ''historyUpdate'', ''historySave'',
      ''sse'', ''oob'']"

definition is_template_value :: "string \<Rightarrow> bool" where
  \<comment> \<open>\<open>strings.Contains(value, "{{") || strings.Contains(value, "TMPL")\<close>\<close>
  "is_template_value v = (Contains v ''{{'' \<or> Contains v ''TMPL'')"

definition swapModifier :: "unicode \<Rightarrow> string \<Rightarrow> node \<Rightarrow> string \<Rightarrow> Result list" where
  \<comment> \<open>one pass of the modifier loop of \<open>validateSwap\<close>: the results it appends\<close>
  "swapModifier U filename n modifier =
     (let colonIdx = Index modifier CHR '':'' in
      if colonIdx = -1
      then [mkResult RuleHTMXAttributes
              (''invalid hx-swap modifier '' @ sq modifier @ '' (missing colon)'')
              filename (Line n) (Col n) Error]
      else
        (let modName = ToLower U (take (nat colonIdx) modifier);
             modValue = drop (nat colonIdx + 1) modifier in
         if modName \<notin> set validSwapModifiers
         then [mkResult RuleHTMXAttributes
                 (''unknown hx-swap modifier '' @ sq modName)
                 filename (Line n) (Col n) Warning]
         else if modName = ''swap'' \<or> modName = ''settle''
         then (if \<not> MatchString timePattern modValue
               then [mkResult RuleHTMXAttributes
                       (''hx-swap '' @ modName @ '' modifier requires a time value (e.g., ''
                        @ sq ''1s'' @ '', '' @ sq ''500ms'' @ '')'')
                       filename (Line n) (Col n) Error]
               else [])
         else if modName = ''scroll'' \<or> modName = ''show''
         then (if ToLower U modValue \<notin> set [''top'', ''bottom''] \<and> \<not> HasPrefix modValue ''#''
               then [mkResult RuleHTMXAttributes
                       (''hx-swap '' @ modName @ '' modifier value should be '' @ sq ''top'' @ '', '' @ sq ''bottom'' @ '', or a selector'')
                       filename (Line n) (Col n) Warning]
               else [])
         else if modName = ''focus-scroll''
         then (if modValue \<noteq> ''true'' \<and> modValue \<noteq> ''false''
               then [mkResult RuleHTMXAttributes
                       (''hx-swap focus-scroll modifier should be '' @ sq ''true'' @ '' or '' @ sq ''false'')
                       filename (Line n) (Col n) Error]
               else [])
         else if modName = ''transition''
         then (if modValue \<noteq> ''true'' \<and> modValue \<noteq> ''false''
               then [mkResult RuleHTMXAttributes
                       (''hx-swap transition modifier should be '' @ sq ''true'' @ '' or '' @ sq ''false'')
                       filename (Line n) (Col n) Error]
               else [])
         else []))"

definition validateSwap :: "unicode \<Rightarrow> HTMXAttributes \<Rightarrow> string \<Rightarrow> node \<Rightarrow> string \<Rightarrow> Result list" where
  "validateSwap U r filename n value =
     (if value = [] then []
      else if is_template_value value then []
      else
        (let value = TrimSpace value;
             parts = Fields value in
         case parts of
           [] \<Rightarrow> []
         | p0 # ps \<Rightarrow>
             (let baseValue = ToLower U p0 in
              if htmxVersion r \<noteq> ''4'' \<and> (baseValue = ''textcontent'' \<or> baseValue = ''upsert'')
              then [mkResult RuleHTMXAttributes
                      (''hx-swap value '' @ sq baseValue @ '' is only available in htmx 4'')
                      filename (Line n) (Col n) Warning]
              else if baseValue \<notin> set validSwapValues
              then [mkResult RuleHTMXAttributes
                      (''invalid hx-swap value '' @ sq p0)
                      filename (Line n) (Col n) Error]
              else concat (map (swapModifier U filename n) ps))))"

definition intersectModifier :: "string \<Rightarrow> node \<Rightarrow> string \<Rightarrow> Result list" where
  \<comment> \<open>one pass of the loop over the modifiers of \<open>intersect\<close>\<close>
  "intersectModifier filename n m =
     (if HasPrefix m ''root:'' \<or> HasPrefix m ''threshold:'' then []
      else if m = ''once'' then []
      else [mkResult RuleHTMXAttributes
              (''unknown intersect modifier '' @ sq m)
              filename (Line n) (Col n) Warning])"

definition triggerModifier :: "unicode \<Rightarrow> string \<Rightarrow> node \<Rightarrow> string \<Rightarrow> Result list" where
  \<comment> \<open>one pass of the last loop of \<open>validateSingleTrigger\<close>\<close>
  "triggerModifier U filename n modifier =
     (if HasPrefix modifier ''['' \<and> HasSuffix modifier '']'' then []
      else
        (let colonIdx = Index modifier CHR '':'' in
         if colonIdx = -1
         then (let modName = ToLower U modifier in
               if modName \<notin> set validTriggerModifiers
               then [mkResult RuleHTMXAttributes
                       (''unknown hx-trigger modifier '' @ sq modifier)
                       filename (Line n) (Col n) Warning]
               else [])
         else
           (let modName = ToLower U (take (nat colonIdx) modifier);
                modValue = drop (nat colonIdx + 1) modifier in
            if modName \<notin> set validTriggerModifiers
            then [mkResult RuleHTMXAttributes
                    (''unknown hx-trigger modifier '' @ sq modName)
                    filename (Line n) (Col n) Warning]
            else if modName = ''delay'' \<or> modName = ''throttle''
            then (if \<not> MatchString timePattern modValue
                  then [mkResult RuleHTMXAttributes
                          (''hx-trigger '' @ modName @ '' requires a time value (e.g., ''
                           @ sq ''1s'' @ '', '' @ sq ''500ms'' @ '')'')
                          filename (Line n) (Col n) Error]
                  else [])
            else if modName = ''queue''
            then (if ToLower U modValue \<notin> set queueModes
                  then [mkResult RuleHTMXAttributes
                          (''hx-trigger queue mode should be '' @ sq ''first''
                           @ '', '' @ sq ''last'' @ '', '' @ sq ''all'' @ '', or '' @ sq ''none'')
                          filename (Line n) (Col n) Error]
                  else [])
            else [])))"

definition validateSingleTrigger ::
  "unicode \<Rightarrow> HTMXAttributes \<Rightarrow> string \<Rightarrow> node \<Rightarrow> string \<Rightarrow> Result list" where
  "validateSingleTrigger U r filename n trigger =
     (case Fields trigger of
        [] \<Rightarrow> []
      | p0 # ps \<Rightarrow>
          (let eventName = ToLower U p0 in
           if eventName = ''every''
           then (case ps of
                   [] \<Rightarrow> [mkResult RuleHTMXAttributes
                            (''hx-trigger '' @ sq ''every''
                             @ '' requires a time value (e.g., '' @ sq ''every 1s'' @ '')'')
                            filename (Line n) (Col n) Error]
                 | p1 # _ \<Rightarrow>
                     (if \<not> MatchString timePattern p1
                      then [mkResult RuleHTMXAttributes
                              (''hx-trigger '' @ sq ''every''
                               @ '' requires a valid time value (e.g., '' @ sq ''1s''
                               @ '', '' @ sq ''500ms'' @ '')'')
                              filename (Line n) (Col n) Error]
                      else []))
           else if eventName = ''intersect''
           then concat (map (intersectModifier filename n) ps)
           else concat (map (triggerModifier U filename n) ps)))"

definition validateTrigger ::
  "unicode \<Rightarrow> HTMXAttributes \<Rightarrow> string \<Rightarrow> node \<Rightarrow> string \<Rightarrow> Result list" where
  "validateTrigger U r filename n value =
     (if value = [] then []
      else if is_template_value value then []
      else
        (let value = TrimSpace value;
             triggers = Split value CHR '','' in
         concat (map (\<lambda>trigger.
                        (let trigger = TrimSpace trigger in
                         if trigger = [] then []
                         else validateSingleTrigger U r filename n trigger))
                     triggers)))"

definition isValidElement :: "string \<Rightarrow> bool" where
  "isValidElement name =
     (name \<in> set
       [''a'', ''abbr'', ''address'', ''area'', ''article'', ''aside'', ''audio'',
        ''b'', ''base'', ''bdi'', ''bdo'', ''blockquote'', ''body'', ''br'', ''button'',
        ''canvas'', ''caption'', ''cite'', ''code'', ''col'', ''colgroup'',
        ''data'', ''datalist'', ''dd'', ''del'', ''details'', ''dfn'', ''dialog'', ''div'', ''dl'', ''dt'',
        ''em'', ''embed'',
        ''fieldset'', ''figcaption'', ''figure'', ''footer'', ''form'',
        ''h1'', ''h2'', ''h3'', ''h4'', ''h5'', ''h6'', ''head'', ''header'', ''hgroup'', ''hr'', ''html'',
        ''i'', ''iframe'', ''img'', ''input'', ''ins'',
        ''kbd'', ''label'', ''legend'', ''li'', ''link'',
        ''main'', ''map'', ''mark'', ''menu'', ''meta'', ''meter'',
        ''nav'', ''noscript'',
        ''object'', ''ol'', ''optgroup'', ''option'', ''output'',
        ''p'', ''picture'', ''pre'', ''progress'',
        ''q'', ''rp'', ''rt'', ''ruby'',
        ''s'', ''samp'', ''script'', ''search'', ''section'', ''select'', ''slot'', ''small'', ''source'',
        ''span'', ''strong'', ''style'', ''sub'', ''summary'', ''sup'',
        ''table'', ''tbody'', ''td'', ''template'', ''textarea'', ''tfoot'', ''th'', ''thead'', ''time'',
        ''title'', ''tr'', ''track'',
        ''u'', ''ul'', ''var'', ''video'', ''wbr''])"

definition validateTarget ::
  "unicode \<Rightarrow> HTMXAttributes \<Rightarrow> string \<Rightarrow> node \<Rightarrow> string \<Rightarrow> Result list" where
  "validateTarget U r filename n value =
     (if value = [] then []
      else if is_template_value value then []
      else
        (let value = TrimSpace value;
             specialValues = [''this'', ''next'', ''previous'', ''body''] in
         if \<not> Contains value '' ''
         then (let lower = ToLower U value in
               if lower \<in> set specialValues then []
               else if HasPrefix value ''#'' \<or> HasPrefix value ''.'' \<or> isValidElement lower then []
               else [])
         else
           (case SplitN2 value CHR '' '' of
              [] \<Rightarrow> []
            | p0 # _ \<Rightarrow>
                (let keyword = ToLower U p0;
                     validKeywords = [''closest'', ''find'', ''next'', ''previous''] in
                 if keyword \<notin> set validKeywords \<and> keyword \<notin> set specialValues
                 then [mkResult RuleHTMXAttributes
                         (''invalid hx-target keyword '' @ sq p0
                          @ ''; expected '' @ sq ''this'' @ '', '' @ sq ''closest'' @ '', '' @ sq ''find''
                          @ '', '' @ sq ''next'' @ '', '' @ sq ''previous'' @ '', or a CSS selector'')
                         filename (Line n) (Col n) Warning]
                 else []))))"

definition validateHTMXv4Event ::
  "unicode \<Rightarrow> HTMXAttributes \<Rightarrow> string \<Rightarrow> node \<Rightarrow> string \<Rightarrow> Result list" where
  "validateHTMXv4Event U r filename n eventName =
     (let remainder = TrimPrefix eventName ''htmx:'' in
      case SplitN2 remainder CHR '':'' of
        [] \<Rightarrow> [mkResult RuleHTMXAttributes (''invalid htmx event format '' @ sq eventName)
                 filename (Line n) (Col n) Error]
      | p0 # ps \<Rightarrow>
          if p0 = []
          then [mkResult RuleHTMXAttributes (''invalid htmx event format '' @ sq eventName)
                  filename (Line n) (Col n) Error]
          else
            (let phase = ToLower U p0 in
             if phase \<notin> set knownHTMXv4Phases
             then (if phase \<in> set [''load'', ''abort'', ''trigger'', ''confirm'', ''prompt''] then []
                   else [mkResult RuleHTMXAttributes
                           (''unknown htmx 4 event phase '' @ sq p0 @ '' in '' @ sq eventName)
                           filename (Line n) (Col n) Warning])
             else
               (case ps of
                  [] \<Rightarrow> []
                | p1 # _ \<Rightarrow>
                    if p1 = [] then []
                    else
                      (case SplitN2 p1 CHR '':'' of
                         [] \<Rightarrow> []
                       | a0 # _ \<Rightarrow>
                           (let action = ToLower U a0 in
                            if action \<notin> set knownHTMXv4Actions
                            then [mkResult RuleHTMXAttributes
                                    (''unknown htmx 4 event action '' @ sq a0 @ '' in '' @ sq eventName)
                                    filename (Line n) (Col n) Warning]
                            else [])))))"

definition validateHTMXEvent ::
  "unicode \<Rightarrow> HTMXAttributes \<Rightarrow> string \<Rightarrow> node \<Rightarrow> string \<Rightarrow> Result list" where
  "validateHTMXEvent U r filename n eventName =
     (if htmxVersion r = ''4'' then validateHTMXv4Event U r filename n eventName
      else if list_ex (\<lambda>validEvent. EqualFold U eventName validEvent) knownHTMXv2Events then []
      else [mkResult RuleHTMXAttributes (''unknown htmx event '' @ sq eventName)
              filename (Line n) (Col n) Warning])"

definition hxOn_eventName :: "string \<Rightarrow> string" where
  \<comment> \<open>the event name that \<open>validateHxOn\<close> takes from the attribute key\<close>
  "hxOn_eventName attrKey =
     (if HasPrefix attrKey ''hx-on:'' then TrimPrefix attrKey ''hx-on:''
      else if HasPrefix attrKey ''hx-on-'' then TrimPrefix attrKey ''hx-on-''
      else [])"

definition validateHxOn ::
  "unicode \<Rightarrow> HTMXAttributes \<Rightarrow> string \<Rightarrow> node \<Rightarrow> string \<Rightarrow> Result list" where
  "validateHxOn U r filename n attrKey =
     (let eventName = hxOn_eventName attrKey in
      if eventName = []
      then [mkResult RuleHTMXAttributes ''hx-on:* requires an event name''
              filename (Line n) (Col n) Error]
      else
        (let eventName = (if HasPrefix eventName '':'' then ''htmx'' @ eventName else eventName);
             lowerEvent = ToLower U eventName in
         if lowerEvent \<in> set knownDOMEvents then []
         else if HasPrefix eventName ''htmx:'' \<or> HasPrefix lowerEvent ''htmx:''
         then validateHTMXEvent U r filename n eventName
         else [mkResult RuleHTMXAttributes
                 (''unknown event '' @ sq eventName
                  @ '' in hx-on:*; if this is a custom event, ignore this warning'')
                 filename (Line n) (Col n) Warning]))"

definition attrResults ::
  "unicode \<Rightarrow> HTMXAttributes \<Rightarrow> string \<Rightarrow> node \<Rightarrow> Attribute \<Rightarrow> Result list" where
  \<comment> \<open>one pass of the loop over the attributes in \<open>Check\<close>\<close>
  "attrResults U r filename n attr =
     (let attrName = ToLower U (Key attr) in
      if \<not> HasPrefix attrName ''hx-'' then []
      else if attrName = ''hx-swap'' then validateSwap U r filename n (Val attr)
      else if attrName = ''hx-trigger'' then validateTrigger U r filename n (Val attr)
      else if attrName = ''hx-target'' then validateTarget U r filename n (Val attr)
      else if HasPrefix attrName ''hx-on:'' \<or> HasPrefix attrName ''hx-on-''
      then validateHxOn U r filename n (Key attr)
      else [])"

definition HTMXAttributes_Check :: "unicode \<Rightarrow> HTMXAttributes \<Rightarrow> Document \<Rightarrow> Result list" where
  "HTMXAttributes_Check U r doc =
     (if \<not> htmxEnabled r then []
      else Walk doc
             (\<lambda>n results.
                (True,
                 if Type n \<noteq> ElementNode then results
                 else results @ concat (map (attrResults U r (Filename doc) n) (Attr n))))
             [])"



section \<open>The valid-for rule\<close>

definition labelableElements :: "string list" where
  "labelableElements =
     [''input'', ''textarea'', ''select'', ''button'', ''output'', ''meter'', ''progress'']"

text \<open>
  \<open>IsTemplateExpr\<close> is a helper of the package \<open>rules\<close>; \<open>ValidFor_Check\<close> takes it as
  the parameter \<open>isTemplateExpr\<close>.
\<close>

definition indexId :: "unicode \<Rightarrow> node \<Rightarrow> (string \<rightharpoonup> node) \<Rightarrow> (string \<rightharpoonup> node)" where
  \<comment> \<open>the first callback of \<open>Check\<close>: what it does to \<open>idMap\<close> at node \<open>n\<close>\<close>
  "indexId U n idMap =
     (if Type n = ElementNode \<and> HasAttr U n ''id''
      then (let id = GetAttr U n ''id'' in if id \<noteq> [] then idMap(id \<mapsto> n) else idMap)
      else idMap)"

definition labelResults ::
  "unicode \<Rightarrow> (string \<Rightarrow> bool) \<Rightarrow> string \<Rightarrow> (string \<rightharpoonup> node) \<Rightarrow> node \<Rightarrow> Result list" where
  \<comment> \<open>the second callback of \<open>Check\<close>: the results it appends at node \<open>n\<close>\<close>
  "labelResults U isTemplateExpr filename idMap n =
     (if Type n \<noteq> ElementNode \<or> \<not> IsElement U n ''label'' then []
      else
        (let forAttr = GetAttr U n ''for'' in
         if forAttr = [] then []
         else if isTemplateExpr forAttr then []
         else
           (case idMap forAttr of
              None \<Rightarrow> []
            | Some target \<Rightarrow>
                (let tag = ToLower U (Data target) in
                 if tag \<notin> set labelableElements
                 then [mkResult RuleValidFor
                         (''label for attribute references non-labelable element <'' @ tag @ ''>'')
                         filename (Line n) (Col n) Error]
                 else if tag = ''input''
                 then (let inputType = ToLower U (GetAttr U target ''type'') in
                       if inputType = ''hidden''
                       then [mkResult RuleValidFor ''label for attribute references hidden input''
                               filename (Line n) (Col n) Error]
                       else [])
                 else []))))"

definition ValidFor_Check :: "unicode \<Rightarrow> (string \<Rightarrow> bool) \<Rightarrow> Document \<Rightarrow> Result list" where
  "ValidFor_Check U isTemplateExpr doc =
     (let idMap = Walk doc (\<lambda>n idMap. (True, indexId U n idMap)) Map.empty in
      Walk doc
        (\<lambda>n results. (True, results @ labelResults U isTemplateExpr (Filename doc) idMap n))
        [])"

definition IsTemplateExpr :: "string \<Rightarrow> bool" where
  \<comment> \<open>Modelled from the spec: the helper \<open>IsTemplateExpr\<close> of the package \<open>rules\<close> is not
      among the sources. The spec: a value that is the directive placeholder, or that still
      contains the double-brace token, is treated as templated and skipped.\<close>
  "IsTemplateExpr v = (Contains v ''{{'' \<or> Contains v ''TMPL'')"

section \<open>The character-reference rule\<close>

definition namedCharRefPattern :: "atom list" where
  \<comment> \<open>\<open>&([a-zA-Z][a-zA-Z0-9]*);\<close>\<close>
  "namedCharRefPattern = [Lit CHR ''&'', GOpen, Cls AlphaC, StarG AlnumC, GClose, Lit CHR '';'']"

text \<open>
  \<open>FindAllStringSubmatchIndex(s, -1)\<close>: the successive leftmost matches, each with the
  position where it starts, its bytes and the bytes of group 1. As in \<open>replace_all\<close>,
  a match of the empty string (which \<open>namedCharRefPattern\<close> cannot have) counts as no
  match.
\<close>

function find_all :: "atom list \<Rightarrow> bool \<Rightarrow> nat \<Rightarrow> string \<Rightarrow> (nat \<times> string \<times> string) list" where
  "find_all re b pos [] = []"
| "find_all re b pos (x # xs) =
     (case rmatch re b (x # xs) (x # xs) (x # xs) of
        None \<Rightarrow> find_all re False (pos + 1) xs
      | Some (rest, g1) \<Rightarrow>
          (if length rest < length (x # xs)
           then (pos, take (length (x # xs) - length rest) (x # xs), g1)
                # find_all re False (pos + (length (x # xs) - length rest)) rest
           else find_all re False (pos + 1) xs))"
  by pat_completeness auto
termination
  by (relation "measure (\<lambda>(re, b, pos, s). length s)") auto

definition FindAllStringSubmatchIndex :: "atom list \<Rightarrow> string \<Rightarrow> (nat \<times> string \<times> string) list" where
  "FindAllStringSubmatchIndex re s = find_all re True 0 s"

text \<open>
  \<open>isInsideTemplateExpr\<close>: \<open>k\<close> is \<open>pos - i\<close>, the number of positions left before \<open>pos\<close>;
  the loop also ends when fewer than two bytes are left.
\<close>

fun template_depth :: "string \<Rightarrow> nat \<Rightarrow> int \<Rightarrow> int" where
  "template_depth (a # b # rest) k depth =
     (if k = 0 then depth
      else if a = CHR ''{'' \<and> b = CHR ''{'' then template_depth rest (k - 2) (depth + 1)
      else if a = CHR ''}'' \<and> b = CHR ''}'' then template_depth rest (k - 2) (depth - 1)
      else template_depth (b # rest) (k - 1) depth)"
| "template_depth s k depth = depth"

definition isInsideTemplateExpr :: "string \<Rightarrow> nat \<Rightarrow> bool" where
  "isInsideTemplateExpr line pos = (template_depth line pos 0 > 0)"

text \<open>
  \<open>html.UnescapeString\<close> belongs to Go's library, with its table of entities; it is the
  parameter \<open>unescape\<close>.
\<close>

definition refResults :: "(string \<Rightarrow> string) \<Rightarrow> string \<Rightarrow> string \<Rightarrow> nat \<Rightarrow> (nat \<times> string \<times> string) \<Rightarrow> Result list" where
  \<comment> \<open>one pass of the loop over the matches of a line\<close>
  "refResults unescape filename lineStr lineNum m =
     (case m of (start, fullRef, name) \<Rightarrow>
        if isInsideTemplateExpr lineStr start then []
        else if unescape fullRef = fullRef
        then [mkResult RuleUnrecognizedCharRef
                (''unrecognized character reference &'' @ name @ '';'')
                filename (int lineNum + 1) (int start + 1) Warning]
        else [])"

definition lineResults :: "(string \<Rightarrow> string) \<Rightarrow> string \<Rightarrow> (nat \<times> string) \<Rightarrow> Result list" where
  \<comment> \<open>one pass of the loop over the lines\<close>
  "lineResults unescape filename nl =
     (case nl of (lineNum, lineStr) \<Rightarrow>
        concat (map (refResults unescape filename lineStr lineNum)
                    (FindAllStringSubmatchIndex namedCharRefPattern lineStr)))"

definition CheckRaw :: "(string \<Rightarrow> string) \<Rightarrow> string \<Rightarrow> string \<Rightarrow> Result list" where
  "CheckRaw unescape filename content =
     (let lines = Split content CHR 0x0A in
      concat (map (lineResults unescape filename) (enumerate 0 lines)))"

definition UnrecognizedCharRef_Check :: "Document \<Rightarrow> Result list" where
  "UnrecognizedCharRef_Check doc = []"

section \<open>The valid-for rule in the words of the spec\<close>

text \<open>
  The statement that \<open>ValidFor_Check\<close> is compared with: for each label with a \<open>for\<close>
  value, the element of the parse unit that carries this id decides the result. When
  several elements carry the id, the last one in document order is the referenced one.
\<close>

definition carries_id :: "unicode \<Rightarrow> string \<Rightarrow> node \<Rightarrow> bool" where
  "carries_id U x t = (Type t = ElementNode \<and> HasAttr U t ''id'' \<and> GetAttr U t ''id'' = x)"

definition referenced :: "unicode \<Rightarrow> node list \<Rightarrow> string \<Rightarrow> node option" where
  "referenced U ns x =
     (case filter (carries_id U x) ns of [] \<Rightarrow> None | t # ts \<Rightarrow> Some (last (t # ts)))"

definition valid_for_spec ::
  "unicode \<Rightarrow> (string \<Rightarrow> bool) \<Rightarrow> string \<Rightarrow> node list \<Rightarrow> node \<Rightarrow> Result list" where
  "valid_for_spec U isTemplateExpr filename ns n =
     (let x = GetAttr U n ''for'' in
      if IsElement U n ''label'' \<and> x \<noteq> [] \<and> \<not> isTemplateExpr x
      then (case referenced U ns x of
              None \<Rightarrow> []
            | Some t \<Rightarrow>
                if ToLower U (Data t) \<notin> set labelableElements
                then [mkResult RuleValidFor
                        (''label for attribute references non-labelable element <''
                         @ ToLower U (Data t) @ ''>'')
                        filename (Line n) (Col n) Error]
                else if ToLower U (Data t) = ''input'' \<and> ToLower U (GetAttr U t ''type'') = ''hidden''
                then [mkResult RuleValidFor ''label for attribute references hidden input''
                        filename (Line n) (Col n) Error]
                else [])
      else [])"

section \<open>The character-reference rule in the words of the spec\<close>

definition flag_reference ::
  "(string \<Rightarrow> string) \<Rightarrow> string \<Rightarrow> nat \<Rightarrow> string \<Rightarrow> (nat \<times> string \<times> string) \<Rightarrow> Result list" where
  \<comment> \<open>the statement that \<open>CheckRaw\<close> is compared with: a reference found on a line is
      flagged exactly when it is not inside a template expression of the line and
      unescaping leaves it unchanged\<close>
  "flag_reference unescape filename lineNum line m =
     (case m of (start, ref, name) \<Rightarrow>
        if \<not> isInsideTemplateExpr line start \<and> unescape ref = ref
        then [mkResult RuleUnrecognizedCharRef (''unrecognized character reference '' @ ref)
                filename (int lineNum + 1) (int start + 1) Warning]
        else [])"

section \<open>Sample inputs\<close>

text \<open>
  Inputs for the closed statements below: stand-ins for the library parameters, and the
  documents of the tests of the package \<open>linter\<close>, as the parser builds them.
\<close>

definition no_tables :: unicode where
  \<comment> \<open>case tables that change nothing; the sample inputs are ASCII and never reach them\<close>
  "no_tables = \<lparr>uni_ToLower = (\<lambda>s. s), uni_EqualFold = (\<lambda>s t. s = t)\<rparr>"

definition mkAttr :: "string \<Rightarrow> string \<Rightarrow> Attribute" where
  "mkAttr k v = \<lparr>Key = k, Val = v\<rparr>"

definition fragment_doc :: "node list \<Rightarrow> Document" where
  \<comment> \<open>a document as \<open>ParseFragment\<close> returns it: a synthetic root over the parsed nodes\<close>
  "fragment_doc ns =
     \<lparr>Root = Some (Node DocumentNode [] [] 1 1 ns), Filename = ''test.html'',
      IsTemplateFragment = False, sourceMap = None\<rparr>"

definition div_with :: "Attribute list \<Rightarrow> Document" where
  \<comment> \<open>\<open><div ...>content</div>\<close>\<close>
  "div_with as = fragment_doc [Node ElementNode ''div'' as 1 1 [Node TextNode ''content'' [] 1 1 []]]"

definition htmx :: "string \<Rightarrow> HTMXAttributes" where
  \<comment> \<open>the rule after \<open>Configure(true, version)\<close>\<close>
  "htmx version = \<lparr>htmxEnabled = True, htmxVersion = version\<rparr>"

definition sample_html :: html_node where
  \<comment> \<open>the tree of \<open><html><head></head><body><p>x</p></body></html>\<close>\<close>
  "sample_html =
     HtmlNode DocumentNode [] []
       [HtmlNode ElementNode ''html'' []
          [HtmlNode ElementNode ''head'' [] [],
           HtmlNode ElementNode ''body'' []
             [HtmlNode ElementNode ''p'' [] [HtmlNode TextNode ''x'' [] []]]]]"

definition div_node :: node where
  "div_node = Node ElementNode ''div'' [] 1 1 []"

definition label_for :: "string \<Rightarrow> node" where
  \<comment> \<open>\<open><label for="x">Name</label>\<close>\<close>
  "label_for x = Node ElementNode ''label'' [mkAttr ''for'' x] 1 1 [Node TextNode ''Name'' [] 1 1 []]"

definition element_id :: "string \<Rightarrow> Attribute list \<Rightarrow> string \<Rightarrow> node" where
  \<comment> \<open>an element without children, with an id and further attributes\<close>
  "element_id tag as x = Node ElementNode tag (mkAttr ''id'' x # as) 1 1 []"

definition unescape_two :: "string \<Rightarrow> string" where
  \<comment> \<open>a stand-in for \<open>html.UnescapeString\<close> that knows the entities \<open>amp\<close> and \<open>copy\<close>\<close>
  "unescape_two s =
     (if s = ''&amp;'' then ''&''
      else if s = ''&copy;'' then [CHR 0xC2, CHR 0xA9]
      else s)"


section \<open>Facts about the string library\<close>

lemma lower_byte_add: "is_upper c \<Longrightarrow> of_char (lower_byte c) = of_char c + (0x20::nat)"
proof (cases c)
  case (Char b0 b1 b2 b3 b4 b5 b6 b7)
  assume "is_upper c"
  with Char have "\<not> b5"
    by (cases b6; cases b7) (auto simp: is_upper_def of_bool_def split: if_splits)
  with Char \<open>is_upper c\<close> show ?thesis
    by (simp add: lower_byte_def)
qed

lemmas htmx_eval = HasPrefix_def HasSuffix_def space_len_def space_len_back_def space_runes_def
  TrimSpace_def is_digit_def is_upper_def is_lower_def MatchString_def
  is_ascii_def lower_byte_def ToLower_def EqualFold_def Fields_def Split_def Index_def SplitN2_def
  TrimPrefix_def Walk_def sq_def mkResult_def
  validSwapValues_def validSwapModifiers_def validTriggerModifiers_def timePattern_def queueModes_def
  is_template_value_def swapModifier_def validateSwap_def validateSingleTrigger_def
  validateTrigger_def attrResults_def
  HTMXAttributes_Check_def mkAttr_def fragment_doc_def div_with_def htmx_def Let_def

section \<open>Facts about the matcher\<close>

text \<open>A match leaves a suffix of the text, and no pattern of the program matches the empty string.\<close>

lemma rmatch_rest_le:
  "rmatch re b s go gc = Some (rest, g) \<Longrightarrow> length rest \<le> length s"
  by (induction re b s go gc rule: rmatch.induct)
     (auto split: if_splits option.splits simp: le_Suc_eq dest: le_trans)

lemma rmatch_Lit_progress:
  "rmatch (Lit c # re) b s go gc = Some (rest, g) \<Longrightarrow> length rest < length s"
  by (cases s) (auto split: if_splits dest: rmatch_rest_le)

lemma patterns_progress:
  "rmatch ifElseEndPattern b s go gc = Some (rest, g) \<Longrightarrow> length rest < length s"
  "rmatch ifEndPattern b s go gc = Some (rest, g) \<Longrightarrow> length rest < length s"
  "rmatch templatePattern b s go gc = Some (rest, g) \<Longrightarrow> length rest < length s"
  "rmatch namedCharRefPattern b s go gc = Some (rest, g) \<Longrightarrow> length rest < length s"
  by (auto simp: ifElseEndPattern_def ifEndPattern_def templatePattern_def namedCharRefPattern_def
      lits_def simp del: rmatch.simps dest: rmatch_Lit_progress)

section \<open>Facts about the traversal\<close>

text \<open>A callback that never stops the traversal folds over the nodes in document order.\<close>

lemma walk_fold:
  "walk (\<lambda>n s. (True, g n s)) n s = (True, fold g (preorder n) s)"
  "walk_children (\<lambda>n s. (True, g n s)) cs s = (True, fold g (concat (map preorder cs)) s)"
  by (induction "\<lambda>n s. (True, g n s)" n s and "\<lambda>n s. (True, g n s)" cs s
      rule: walk_walk_children.induct) simp_all

lemma Walk_fold:
  "Walk doc (\<lambda>n s. (True, g n s)) s = (case Root doc of None \<Rightarrow> s | Some r \<Rightarrow> fold g (preorder r) s)"
  by (simp add: Walk_def walk_fold split: option.splits)

lemma fold_append_results: "fold (\<lambda>n rs. rs @ f n) ns acc = acc @ concat (map f ns)"
  by (induction ns arbitrary: acc) simp_all

section \<open>Properties of the preprocessor\<close>

subsection \<open>Input without directives\<close>

lemma Contains_Cons: "Contains s sub \<Longrightarrow> Contains (x # s) sub"
  by simp

lemma Contains_drop: "Contains (drop n s) sub \<Longrightarrow> Contains s sub"
proof (induction s arbitrary: n)
  case Nil
  then show ?case by simp
next
  case (Cons x xs)
  show ?case
  proof (cases n)
    case 0
    with Cons.prems show ?thesis by simp
  next
    case (Suc m)
    with Cons.prems have "Contains (drop m xs) sub" by simp
    then have "Contains xs sub" by (rule Cons.IH)
    then show ?thesis by simp
  qed
qed

lemma closes_Cons: "closes (a # re) \<Longrightarrow> (\<exists>d re'. a = Lit CHR ''}'' \<and> re = Lit CHR ''}'' # re') \<or> closes re"
  by (cases a; cases re; cases "hd re") auto

lemma rmatch_closes:
  "rmatch re b s go gc = Some r \<Longrightarrow> closes re \<Longrightarrow> Contains s ''}}''"
proof (induction re b s go gc rule: rmatch.induct)
  case (1 b s go gc)
  then show ?case by simp
next
  case (2 c re b go gc)
  then show ?case by simp
next
  case (3 c re b x xs go gc)
  from "3.prems" have xc: "x = c" and m: "rmatch re False xs go gc = Some r"
    by (auto split: if_splits)
  from closes_Cons [OF "3.prems"(2)] show ?case
  proof
    assume "\<exists>d re'. Lit c = Lit CHR ''}'' \<and> re = Lit CHR ''}'' # re'"
    then obtain re' where c: "c = CHR ''}''" and re: "re = Lit CHR ''}'' # re'" by auto
    from m re obtain ys where "xs = CHR ''}'' # ys"
      by (cases xs) (auto split: if_splits)
    with xc c show ?thesis by (simp add: HasPrefix_def)
  next
    assume "closes re"
    with "3.IH" xc m have "Contains xs ''}}''" by simp
    then show ?thesis by simp
  qed
qed (auto split: if_splits option.splits dest: Contains_drop)


lemma lazy_close:
  "(rmatch [StarL AnyC, Lit CHR ''}'', Lit CHR ''}''] b t go gc \<noteq> None) = Contains t ''}}''"
proof (induction t arbitrary: b)
  case Nil
  show ?case by simp
next
  case (Cons x xs)
  have "(rmatch [Lit CHR ''}'', Lit CHR ''}''] b (x # xs) go gc \<noteq> None) = HasPrefix (x # xs) ''}}''"
    by (cases xs) (auto simp: HasPrefix_def)
  with Cons.IH [of False] show ?case
    by (auto split: option.splits)
qed

lemma template_match:
  "(rmatch templatePattern b s go gc \<noteq> None) = (\<exists>t. s = ''{{'' @ t \<and> Contains t ''}}'')"
proof (cases s)
  case Nil
  then show ?thesis by (simp add: templatePattern_def lits_def)
next
  case (Cons x xs)
  note s = this
  show ?thesis
  proof (cases xs)
    case Nil
    with s show ?thesis by (simp add: templatePattern_def lits_def)
  next
    case (Cons y t)
    have "(rmatch templatePattern b (x # y # t) go gc \<noteq> None)
          = (x = CHR ''{'' \<and> y = CHR ''{''
             \<and> rmatch [StarL AnyC, Lit CHR ''}'', Lit CHR ''}''] False t go gc \<noteq> None)"
      by (simp add: templatePattern_def lits_def del: rmatch.simps(10,11))
    also have "\<dots> = (x = CHR ''{'' \<and> y = CHR ''{'' \<and> Contains t ''}}'')"
      by (simp only: lazy_close)
    also have "\<dots> = (\<exists>t'. x # y # t = ''{{'' @ t' \<and> Contains t' ''}}'')"
      by auto
    finally show ?thesis using s Cons by simp
  qed
qed

lemma braces_pattern_template:
  assumes "rmatch (Lit CHR ''{'' # Lit CHR ''{'' # re) b s go gc = Some r" and "closes re"
  shows "rmatch templatePattern b' s go' gc' \<noteq> None"
proof -
  from assms(1) obtain t where s: "s = ''{{'' @ t" and m: "rmatch re False t go gc = Some r"
    by (cases s; cases "tl s") (auto split: if_splits)
  from rmatch_closes [OF m assms(2)] s show ?thesis
    by (simp only: template_match) blast
qed

lemma replace_all_no_match:
  "\<not> search re b s \<Longrightarrow> replace_all re repl b s = s"
proof (induction s arbitrary: b)
  case Nil
  show ?case by simp
next
  case (Cons x xs)
  from Cons.prems have none: "rmatch re b (x # xs) (x # xs) (x # xs) = None"
    by (cases "rmatch re b (x # xs) (x # xs) (x # xs)") simp_all
  from Cons.prems have rest: "\<not> search re False xs"
    by (simp split: if_splits)
  from Cons.IH [OF rest] none show ?case by simp
qed

lemma search_implies:
  assumes "\<And>b s go gc. rmatch re1 b s go gc \<noteq> None \<Longrightarrow> rmatch re2 b s s s \<noteq> None"
  shows "search re1 b s \<Longrightarrow> search re2 b s"
proof (induction s arbitrary: b)
  case Nil
  then show ?case using assms [of b "[]" "[]" "[]"] by simp
next
  case (Cons x xs)
  show ?case
  proof (cases "rmatch re1 b (x # xs) (x # xs) (x # xs) \<noteq> None")
    case True
    from assms [OF True] show ?thesis by simp
  next
    case False
    with Cons.prems have "search re1 False xs" by simp
    then have "search re2 False xs" by (rule Cons.IH)
    then show ?thesis by simp
  qed
qed

lemma closes_ifElseEnd:
  "ifElseEndPattern = Lit CHR ''{'' # Lit CHR ''{'' # drop 2 ifElseEndPattern"
  "closes (drop 2 ifElseEndPattern)"
  by (simp_all add: ifElseEndPattern_def lits_def)

lemma closes_ifEnd:
  "ifEndPattern = Lit CHR ''{'' # Lit CHR ''{'' # drop 2 ifEndPattern"
  "closes (drop 2 ifEndPattern)"
  by (simp_all add: ifEndPattern_def lits_def)

lemma no_directive_no_block:
  assumes "\<not> MatchString templatePattern s"
  shows "\<not> search ifElseEndPattern True s" and "\<not> search ifEndPattern True s"
proof -
  have "rmatch templatePattern b t t t \<noteq> None" if "rmatch ifElseEndPattern b t go gc \<noteq> None"
    for b t go gc
    using that closes_ifElseEnd braces_pattern_template by (metis not_Some_eq)
  from search_implies [of ifElseEndPattern templatePattern, OF this] assms
  show "\<not> search ifElseEndPattern True s"
    by (auto simp: MatchString_def)
  have "rmatch templatePattern b t t t \<noteq> None" if "rmatch ifEndPattern b t go gc \<noteq> None"
    for b t go gc
    using that closes_ifEnd braces_pattern_template by (metis not_Some_eq)
  from search_implies [of ifEndPattern templatePattern, OF this] assms
  show "\<not> search ifEndPattern True s"
    by (auto simp: MatchString_def)
qed

lemma Process_no_directive:
  assumes "\<not> MatchString templatePattern s"
  shows "Process s = Inr (s, \<lparr>Original = s, Processed = s\<rparr>)"
  using assms no_directive_no_block [OF assms]
  by (simp add: Process_def ReplaceAll_group1_def ReplaceAllFunc_def replace_all_no_match
      MatchString_def)

lemma search_template_braces: "search templatePattern b s \<Longrightarrow> Contains s ''{{''"
proof (induction s arbitrary: b)
  case Nil
  then show ?case by (simp add: templatePattern_def lits_def)
next
  case (Cons x xs)
  show ?case
  proof (cases "rmatch templatePattern b (x # xs) (x # xs) (x # xs) \<noteq> None")
    case True
    then obtain t where "x # xs = ''{{'' @ t" unfolding template_match by blast
    then show ?thesis by (simp add: HasPrefix_def)
  next
    case False
    with Cons.prems have "search templatePattern False xs" by simp
    then have "Contains xs ''{{''" by (rule Cons.IH)
    then show ?thesis by simp
  qed
qed

lemma no_braces_no_directive: "\<not> Contains s ''{{'' \<Longrightarrow> \<not> MatchString templatePattern s"
  unfolding MatchString_def using search_template_braces by blast

text \<open>
  C9. Preprocessing is idempotent on output without directive syntax: when
  \<open>templatePattern\<close>, the program's pattern for a directive \<open>{{ ... }}\<close>, matches nowhere
  in the bytes that \<open>Process\<close> returns (as is the case when they contain no \<open>{{\<close>,
  \<open>no_braces_no_directive\<close>), \<open>Process\<close> of these bytes returns them unchanged.
\<close>

theorem Process_idempotent:
  "Process inp = Inr (out, sm) \<Longrightarrow> \<not> MatchString templatePattern out \<Longrightarrow>
   Process out = Inr (out, \<lparr>Original = out, Processed = out\<rparr>)"
  by (rule Process_no_directive)

theorem Process_idempotent_witness:
  "Process ''<p>{{ .Name }}</p> {{ x''
     = Inr (''<p>TMPL</p> {{ x'',
            \<lparr>Original = ''<p>{{ .Name }}</p> {{ x'', Processed = ''<p>TMPL</p> {{ x''\<rparr>)
   \<and> \<not> MatchString templatePattern ''<p>TMPL</p> {{ x''
   \<and> Process ''<p>TMPL</p> {{ x''
     = Inr (''<p>TMPL</p> {{ x'',
            \<lparr>Original = ''<p>TMPL</p> {{ x'', Processed = ''<p>TMPL</p> {{ x''\<rparr>)"
proof -
  have h1: "Process ''<p>{{ .Name }}</p> {{ x''
     = Inr (''<p>TMPL</p> {{ x'',
            \<lparr>Original = ''<p>{{ .Name }}</p> {{ x'', Processed = ''<p>TMPL</p> {{ x''\<rparr>)"
    by code_simp
  have h2: "\<not> MatchString templatePattern ''<p>TMPL</p> {{ x''"
    by code_simp
  from Process_idempotent [OF h1 h2] h1 h2 show ?thesis by simp
qed

subsection \<open>Multi-line blocks\<close>

text \<open>
  C1. The claim is that the output of \<open>Process\<close> has as many newlines as its input. On
  an \<open>if\<close>/\<open>else\<close>/\<open>end\<close> block whose else-branch spans two lines, the input has one
  newline and the output has none.
\<close>

theorem Process_drops_newline:
  "Process ''<p>{{if .A}}x{{else}}y\<newline>z{{end}}</p>''
     = Inr (''<p>x</p>'',
            \<lparr>Original = ''<p>{{if .A}}x{{else}}y\<newline>z{{end}}</p>'', Processed = ''<p>x</p>''\<rparr>)
   \<and> count_list ''<p>{{if .A}}x{{else}}y\<newline>z{{end}}</p>'' (CHR 0x0A) = 1
   \<and> count_list ''<p>x</p>'' (CHR 0x0A) = 0"
  by code_simp

subsection \<open>Nested blocks\<close>

text \<open>
  C3. The claim is that the else-branch of an \<open>if\<close>/\<open>else\<close>/\<open>end\<close> block never reaches
  the output, also for nested blocks. With a block nested in the if-branch, the lazy match
  of \<open>ifElseEndPattern\<close> pairs the outer \<open>if\<close> with the inner \<open>else\<close> and \<open>end\<close>; the else-branch
  \<open>E\<close> of the outer block stays in the output.
\<close>

theorem Process_nested_keeps_else:
  "Process ''{{if a}}A{{if b}}B{{else}}C{{end}}D{{else}}E{{end}}''
     = Inr (''ABDE'',
            \<lparr>Original = ''{{if a}}A{{if b}}B{{else}}C{{end}}D{{else}}E{{end}}'',
             Processed = ''ABDE''\<rparr>)
   \<and> Contains ''ABDE'' ''E''"
  by code_simp

section \<open>Properties of the document builder\<close>

lemma buildNodeTree_positions:
  "n \<in> set (preorder (buildNodeTree h p)) \<Longrightarrow>
   Line n = (case p of None \<Rightarrow> 1 | Some q \<Rightarrow> Line q) \<and>
   Col n = (case p of None \<Rightarrow> 1 | Some q \<Rightarrow> Col q)"
proof (induction h arbitrary: p n)
  case (HtmlNode t d a cs)
  let ?l = "case p of None \<Rightarrow> 1 | Some q \<Rightarrow> Line q"
  let ?c = "case p of None \<Rightarrow> 1 | Some q \<Rightarrow> Col q"
  let ?me = "Node t d a ?l ?c []"
  from HtmlNode.prems
  consider "n = Node t d a ?l ?c (map (\<lambda>c. buildNodeTree c (Some ?me)) cs)"
    | c where "c \<in> set cs" "n \<in> set (preorder (buildNodeTree c (Some ?me)))"
    by (auto simp: Let_def)
  then show ?case
  proof cases
    case 1
    then show ?thesis by simp
  next
    case 2
    from HtmlNode.IH [OF 2] show ?thesis by simp
  qed
qed

lemma Process_returns: "\<exists>out sm. Process inp = Inr (out, sm)"
  by (simp add: Process_def Let_def)

lemma Parse_returns:
  assumes "Process content = Inr (processed, sm)" and "html_Parse processed = Inr root"
  shows "\<exists>doc. Parse html_Parse filename content = Inr doc"
  using assms by (simp add: Parse_def)

text \<open>
  C10. Every node of a document that \<open>Parse\<close> or \<open>ParseFragment\<close> returns has line 1 and
  column 1: the root gets (1, 1), and \<open>buildNodeTree\<close> gives each node the position of
  its parent.
\<close>

theorem parsed_nodes_at_1_1:
  assumes "Parse html_Parse filename content = Inr doc
           \<or> ParseFragment html_ParseFragment filename content = Inr doc"
  shows "\<exists>r. Root doc = Some r \<and> (\<forall>n \<in> set (preorder r). Line n = 1 \<and> Col n = 1)"
  using assms
proof
  assume "Parse html_Parse filename content = Inr doc"
  then obtain root where "Root doc = Some (buildNodeTree root None)"
    by (auto simp: Parse_def split: sum.splits prod.splits)
  moreover have "\<forall>n \<in> set (preorder (buildNodeTree root None)). Line n = 1 \<and> Col n = 1"
    using buildNodeTree_positions [where p = None] by simp
  ultimately show ?thesis by blast
next
  let ?top = "Node DocumentNode [] [] 1 1 []"
  assume "ParseFragment html_ParseFragment filename content = Inr doc"
  then obtain nodes where r: "Root doc = Some (Node DocumentNode [] [] 1 1
      (map (\<lambda>n. buildNodeTree n (Some ?top)) nodes))"
    by (auto simp: ParseFragment_def Let_def split: sum.splits prod.splits)
  have "\<forall>n \<in> set (preorder (Node DocumentNode [] [] 1 1
      (map (\<lambda>n. buildNodeTree n (Some ?top)) nodes))). Line n = 1 \<and> Col n = 1"
    using buildNodeTree_positions [where p = "Some ?top"] by auto
  with r show ?thesis by blast
qed

theorem parsed_nodes_at_1_1_witness:
  "Parse (\<lambda>bytes. Inr sample_html) ''page.html'' ''<p>{{ .X }}</p>''
     = Inr \<lparr>Root = Some (buildNodeTree sample_html None), Filename = ''page.html'',
            IsTemplateFragment = False,
            sourceMap = Some \<lparr>Original = ''<p>{{ .X }}</p>'', Processed = ''<p>TMPL</p>''\<rparr>\<rparr>
   \<and> length (preorder (buildNodeTree sample_html None)) = 6
   \<and> list_all (\<lambda>n. Line n = 1 \<and> Col n = 1) (preorder (buildNodeTree sample_html None))"
proof -
  have h: "Parse (\<lambda>bytes. Inr sample_html) ''page.html'' ''<p>{{ .X }}</p>''
     = Inr \<lparr>Root = Some (buildNodeTree sample_html None), Filename = ''page.html'',
            IsTemplateFragment = False,
            sourceMap = Some \<lparr>Original = ''<p>{{ .X }}</p>'', Processed = ''<p>TMPL</p>''\<rparr>\<rparr>"
    by code_simp
  have l: "length (preorder (buildNodeTree sample_html None)) = 6"
    by code_simp
  from parsed_nodes_at_1_1 [OF disjI1, OF h] h l show ?thesis
    by (simp add: list_all_iff)
qed

section \<open>Properties of the htmx attribute rule\<close>

subsection \<open>The time pattern\<close>





subsection \<open>A disabled framework\<close>

text \<open>
  C5. When the framework is not enabled, \<open>Check\<close> returns no results, whatever the
  document and its attribute values are.
\<close>

theorem disabled_no_results:
  "\<not> htmxEnabled r \<Longrightarrow> HTMXAttributes_Check U r doc = []"
  by (simp add: HTMXAttributes_Check_def)

theorem disabled_no_results_witness:
  "\<not> htmxEnabled (Configure (htmx ''2'') False ''2'')
   \<and> HTMXAttributes_Check no_tables (Configure (htmx ''2'') False ''2'')
        (div_with [mkAttr ''hx-swap'' ''invalid'', mkAttr ''hx-trigger'' ''every'',
                   mkAttr ''hx-target'' ''closet div'', mkAttr ''hx-on:'' ''x'']) = []
   \<and> map Severity
        (HTMXAttributes_Check no_tables (htmx ''2'')
          (div_with [mkAttr ''hx-swap'' ''invalid'', mkAttr ''hx-trigger'' ''every'',
                     mkAttr ''hx-target'' ''closet div'', mkAttr ''hx-on:'' ''x'']))
      = [Error, Error, Warning, Error]"
proof -
  have off: "\<not> htmxEnabled (Configure (htmx ''2'') False ''2'')"
    by (simp add: Configure_def htmx_def)
  have on: "map Severity
        (HTMXAttributes_Check no_tables (htmx ''2'')
          (div_with [mkAttr ''hx-swap'' ''invalid'', mkAttr ''hx-trigger'' ''every'',
                     mkAttr ''hx-target'' ''closet div'', mkAttr ''hx-on:'' ''x'']))
      = [Error, Error, Warning, Error]"
    by code_simp
  from disabled_no_results [OF off] off on show ?thesis by simp
qed

subsection \<open>The swap attribute\<close>

text \<open>
  C2. With the framework enabled: \<open>hx-swap="innerHTML settle:500ms"\<close> under version 2
  gives no result; \<open>invalid\<close> gives an Error "invalid hx-swap value"; \<open>innerHTML
  notamodifier\<close> gives an Error that says "missing colon"; \<open>textContent\<close> gives a Warning
  "only available in htmx 4" under version 2 and no result under version 4.
\<close>

theorem swap_examples:
  "HTMXAttributes_Check U (htmx ''2'') (div_with [mkAttr ''hx-swap'' ''innerHTML settle:500ms'']) = []
   \<and> HTMXAttributes_Check U (htmx v) (div_with [mkAttr ''hx-swap'' ''invalid''])
       = [mkResult RuleHTMXAttributes (''invalid hx-swap value '' @ sq ''invalid'')
            ''test.html'' 1 1 Error]
   \<and> HTMXAttributes_Check U (htmx v) (div_with [mkAttr ''hx-swap'' ''innerHTML notamodifier''])
       = [mkResult RuleHTMXAttributes
            (''invalid hx-swap modifier '' @ sq ''notamodifier'' @ '' (missing colon)'')
            ''test.html'' 1 1 Error]
   \<and> HTMXAttributes_Check U (htmx ''2'') (div_with [mkAttr ''hx-swap'' ''textContent''])
       = [mkResult RuleHTMXAttributes
            (''hx-swap value '' @ sq ''textcontent'' @ '' is only available in htmx 4'')
            ''test.html'' 1 1 Warning]
   \<and> HTMXAttributes_Check U (htmx ''4'') (div_with [mkAttr ''hx-swap'' ''textContent'']) = []"
proof (intro conjI)
  show "HTMXAttributes_Check U (htmx ''2'')
          (div_with [mkAttr ''hx-swap'' ''innerHTML settle:500ms'']) = []"
    by code_simp
  show "HTMXAttributes_Check U (htmx v) (div_with [mkAttr ''hx-swap'' ''invalid''])
       = [mkResult RuleHTMXAttributes (''invalid hx-swap value '' @ sq ''invalid'')
            ''test.html'' 1 1 Error]"
    by (simp add: htmx_eval)
  show "HTMXAttributes_Check U (htmx v) (div_with [mkAttr ''hx-swap'' ''innerHTML notamodifier''])
       = [mkResult RuleHTMXAttributes
            (''invalid hx-swap modifier '' @ sq ''notamodifier'' @ '' (missing colon)'')
            ''test.html'' 1 1 Error]"
    by (simp add: htmx_eval)
  show "HTMXAttributes_Check U (htmx ''2'') (div_with [mkAttr ''hx-swap'' ''textContent''])
       = [mkResult RuleHTMXAttributes
            (''hx-swap value '' @ sq ''textcontent'' @ '' is only available in htmx 4'')
            ''test.html'' 1 1 Warning]"
    by code_simp
  show "HTMXAttributes_Check U (htmx ''4'') (div_with [mkAttr ''hx-swap'' ''textContent'']) = []"
    by code_simp
qed

subsection \<open>The trigger attribute\<close>











section \<open>Properties of the valid-for rule\<close>

subsection \<open>The index of ids\<close>

lemma indexId_lookup:
  "x \<noteq> [] \<Longrightarrow> indexId U n m x = (if carries_id U x n then Some n else m x)"
  by (auto simp: indexId_def carries_id_def Let_def)

lemma referenced_Cons:
  "referenced U (n # ns) x =
     (case referenced U ns x of Some t \<Rightarrow> Some t | None \<Rightarrow> if carries_id U x n then Some n else None)"
  by (auto simp: referenced_def split: list.splits)

lemma idMap_lookup:
  "x \<noteq> [] \<Longrightarrow>
   fold (indexId U) ns m x = (case referenced U ns x of Some t \<Rightarrow> Some t | None \<Rightarrow> m x)"
proof (induction ns arbitrary: m)
  case Nil
  show ?case by (simp add: referenced_def)
next
  case (Cons n ns)
  show ?case
    using Cons.IH [OF Cons.prems, of "indexId U n m"] indexId_lookup [OF Cons.prems, of U n m]
    by (simp add: referenced_Cons split: option.splits)
qed

lemma labelResults_spec:
  assumes "\<And>x. x \<noteq> [] \<Longrightarrow> idMap x = referenced U ns x"
  shows "labelResults U tpl filename idMap n = valid_for_spec U tpl filename ns n"
  using assms [of "GetAttr U n ''for''"]
  by (auto simp: labelResults_def valid_for_spec_def Let_def IsElement_def split: option.splits)

text \<open>
  C4, amended. For every document, \<open>Check\<close> returns, label by label in document order:
  nothing for a label without a \<open>for\<close> value, or whose \<open>for\<close> value the template guard
  skips, or whose \<open>for\<close> value is the id of no element of the parse unit; an Error when
  the referenced element is not labelable; an Error when it is an input of type hidden;
  nothing when it is labelable and not a hidden input.
\<close>

theorem ValidFor_Check_spec:
  "ValidFor_Check U isTemplateExpr doc =
     (case Root doc of
        None \<Rightarrow> []
      | Some r \<Rightarrow> concat (map (valid_for_spec U isTemplateExpr (Filename doc) (preorder r)) (preorder r)))"
proof (cases "Root doc")
  case None
  then show ?thesis by (simp add: ValidFor_Check_def Walk_def)
next
  case (Some r)
  let ?idMap = "fold (indexId U) (preorder r) Map.empty"
  have first: "Walk doc (\<lambda>n idMap. (True, indexId U n idMap)) Map.empty = ?idMap"
    using Some by (simp add: Walk_fold)
  have "?idMap x = referenced U (preorder r) x" if "x \<noteq> []" for x
    using idMap_lookup [OF that, of U "preorder r" Map.empty] by (simp split: option.splits)
  then have same: "labelResults U isTemplateExpr (Filename doc) ?idMap
                   = valid_for_spec U isTemplateExpr (Filename doc) (preorder r)"
    by (intro ext labelResults_spec)
  have "ValidFor_Check U isTemplateExpr doc
        = fold (\<lambda>n rs. rs @ valid_for_spec U isTemplateExpr (Filename doc) (preorder r) n)
            (preorder r) []"
    unfolding ValidFor_Check_def Let_def first same using Some by (simp add: Walk_fold)
  then show ?thesis
    using Some by (simp add: fold_append_results)
qed

theorem ValidFor_Check_spec_witness:
  "ValidFor_Check no_tables IsTemplateExpr
     (fragment_doc [label_for ''a'', element_id ''input'' [mkAttr ''type'' ''hidden''] ''a'',
                    label_for ''b'', element_id ''input'' [mkAttr ''type'' ''text''] ''b'',
                    label_for ''c'',
                    label_for ''d'', element_id ''span'' [] ''d''])
   = [mkResult RuleValidFor ''label for attribute references hidden input'' ''test.html'' 1 1 Error,
      mkResult RuleValidFor ''label for attribute references non-labelable element <span>''
        ''test.html'' 1 1 Error]"
proof -
  let ?ns = "[label_for ''a'', element_id ''input'' [mkAttr ''type'' ''hidden''] ''a'',
              label_for ''b'', element_id ''input'' [mkAttr ''type'' ''text''] ''b'',
              label_for ''c'',
              label_for ''d'', element_id ''span'' [] ''d'']"
  have r: "Root (fragment_doc ?ns) = Some (Node DocumentNode [] [] 1 1 ?ns)"
    by (simp add: fragment_doc_def)
  have "concat (map (valid_for_spec no_tables IsTemplateExpr (Filename (fragment_doc ?ns))
                       (preorder (Node DocumentNode [] [] 1 1 ?ns)))
                    (preorder (Node DocumentNode [] [] 1 1 ?ns)))
        = [mkResult RuleValidFor ''label for attribute references hidden input'' ''test.html'' 1 1 Error,
           mkResult RuleValidFor ''label for attribute references non-labelable element <span>''
             ''test.html'' 1 1 Error]"
    by code_simp
  with ValidFor_Check_spec [of no_tables IsTemplateExpr "fragment_doc ?ns"] r
  show ?thesis by simp
qed

text \<open>
  C4 as stated fails on a \<open>for\<close> value that is the directive placeholder: the label
  references \<open>id="TMPL"\<close>, an element with this id exists and is a \<open>div\<close>, and \<open>Check\<close>
  returns nothing. The same document with the id \<open>name\<close> gives the Error.
\<close>

theorem ValidFor_skips_placeholder:
  "ValidFor_Check no_tables IsTemplateExpr
     (fragment_doc [label_for ''TMPL'', element_id ''div'' [] ''TMPL'']) = []
   \<and> referenced no_tables
         (preorder (Node DocumentNode [] [] 1 1 [label_for ''TMPL'', element_id ''div'' [] ''TMPL'']))
         ''TMPL''
       = Some (element_id ''div'' [] ''TMPL'')
   \<and> ToLower no_tables (Data (element_id ''div'' [] ''TMPL'')) \<notin> set labelableElements
   \<and> ValidFor_Check no_tables IsTemplateExpr
         (fragment_doc [label_for ''name'', element_id ''div'' [] ''name''])
       = [mkResult RuleValidFor ''label for attribute references non-labelable element <div>''
            ''test.html'' 1 1 Error]"
proof (intro conjI)
  show "ValidFor_Check no_tables IsTemplateExpr
     (fragment_doc [label_for ''TMPL'', element_id ''div'' [] ''TMPL'']) = []"
    by code_simp
  show "referenced no_tables
         (preorder (Node DocumentNode [] [] 1 1 [label_for ''TMPL'', element_id ''div'' [] ''TMPL'']))
         ''TMPL''
       = Some (element_id ''div'' [] ''TMPL'')"
    by code_simp
  show "ToLower no_tables (Data (element_id ''div'' [] ''TMPL'')) \<notin> set labelableElements"
    by code_simp
  show "ValidFor_Check no_tables IsTemplateExpr
         (fragment_doc [label_for ''name'', element_id ''div'' [] ''name''])
       = [mkResult RuleValidFor ''label for attribute references non-labelable element <div>''
            ''test.html'' 1 1 Error]"
    by code_simp
qed

section \<open>The event-handler attribute\<close>

text \<open>
  C8, amended. For an \<open>hx-on\<close> attribute whose event name is not the \<open>::\<close> shorthand, is
  no DOM event when lowercased, and carries the prefix \<open>htmx:\<close> neither as written nor
  lowercased, the validator returns one result: the Warning about a possible custom
  event when the name is not empty, and the Error "requires an event name" when it is.
\<close>

theorem hxOn_unknown_event:
  assumes "ev = hxOn_eventName attrKey"
    and "\<not> HasPrefix ev '':''"
    and "ToLower U ev \<notin> set knownDOMEvents"
    and "\<not> HasPrefix ev ''htmx:''" and "\<not> HasPrefix (ToLower U ev) ''htmx:''"
  shows "validateHxOn U r filename n attrKey =
     (if ev = []
      then [mkResult RuleHTMXAttributes ''hx-on:* requires an event name''
              filename (Line n) (Col n) Error]
      else [mkResult RuleHTMXAttributes
              (''unknown event '' @ sq ev @ '' in hx-on:*; if this is a custom event, ignore this warning'')
              filename (Line n) (Col n) Warning])"
  using assms by (simp add: validateHxOn_def Let_def)


theorem hxOn_unknown_event_witness:
  "hxOn_eventName ''hx-on:my-event'' = ''my-event''
   \<and> \<not> HasPrefix ''my-event'' '':''
   \<and> ToLower no_tables ''my-event'' \<notin> set knownDOMEvents
   \<and> \<not> HasPrefix ''my-event'' ''htmx:''
   \<and> \<not> HasPrefix (ToLower no_tables ''my-event'') ''htmx:''
   \<and> validateHxOn no_tables (htmx ''2'') ''test.html'' div_node ''hx-on:my-event''
       = [mkResult RuleHTMXAttributes
            (''unknown event '' @ sq ''my-event''
             @ '' in hx-on:*; if this is a custom event, ignore this warning'')
            ''test.html'' 1 1 Warning]"
proof -
  have e: "''my-event'' = hxOn_eventName ''hx-on:my-event''"
    by code_simp
  have c: "\<not> HasPrefix ''my-event'' '':''"
    by code_simp
  have d: "ToLower no_tables ''my-event'' \<notin> set knownDOMEvents"
    by code_simp
  have p: "\<not> HasPrefix ''my-event'' ''htmx:''" "\<not> HasPrefix (ToLower no_tables ''my-event'') ''htmx:''"
    by code_simp+
  have n: "Line div_node = 1" "Col div_node = 1"
    by (simp_all add: div_node_def)
  from hxOn_unknown_event [OF e c d p, of "htmx ''2''" "''test.html''" div_node] e c d p n
  show ?thesis by simp
qed

text \<open>
  C8 as stated fails on the attribute \<open>hx-on:\<close>: its event name is empty, so it is no
  DOM event and has no \<open>htmx:\<close> prefix, and the validator returns an Error.
\<close>

theorem hxOn_empty_name_error:
  "hxOn_eventName ''hx-on:'' = []
   \<and> ToLower no_tables [] \<notin> set knownDOMEvents
   \<and> \<not> HasPrefix [] ''htmx:''
   \<and> HTMXAttributes_Check no_tables (htmx ''2'') (div_with [mkAttr ''hx-on:'' ''alert(1)''])
       = [mkResult RuleHTMXAttributes ''hx-on:* requires an event name'' ''test.html'' 1 1 Error]"
proof (intro conjI)
  show "hxOn_eventName ''hx-on:'' = []"
    by code_simp
  show "ToLower no_tables [] \<notin> set knownDOMEvents"
    by code_simp
  show "\<not> HasPrefix [] ''htmx:''"
    by code_simp
  show "HTMXAttributes_Check no_tables (htmx ''2'') (div_with [mkAttr ''hx-on:'' ''alert(1)''])
       = [mkResult RuleHTMXAttributes ''hx-on:* requires an event name'' ''test.html'' 1 1 Error]"
    by code_simp
qed

section \<open>Properties of the character-reference rule\<close>

subsection \<open>The matches of the scan pattern\<close>

lemma rmatch_suffix:
  "rmatch re b s go gc = Some (rest, g) \<Longrightarrow> \<exists>pre. s = pre @ rest"
proof (induction re b s go gc rule: rmatch.induct)
  case (15 w ws re b s go gc)
  then show ?case
    by (auto split: if_splits option.splits)
       (metis append_take_drop_id append.assoc)
qed (auto split: if_splits option.splits intro: Cons_eq_appendI)

lemma not_alnum_semicolon: "\<not> in_cls AlnumC CHR '';''"
  by (simp add: is_lower_def is_upper_def is_digit_def)

lemma star_alnum:
  "rmatch [StarG AlnumC, GClose, Lit CHR '';''] b t go gc0 = Some (rest, g) \<Longrightarrow>
   \<exists>cs. t = cs @ CHR '';'' # rest \<and> list_all (in_cls AlnumC) cs
        \<and> g = take (length go - length (CHR '';'' # rest)) go"
proof (induction t arbitrary: b)
  case Nil
  then show ?case by simp
next
  case (Cons x xs)
  show ?case
  proof (cases "in_cls AlnumC x")
    case True
    then have "x \<noteq> CHR '';''" using not_alnum_semicolon by auto
    with True Cons.prems
    have "rmatch [StarG AlnumC, GClose, Lit CHR '';''] False xs go gc0 = Some (rest, g)"
      by (simp del: in_cls.simps split: option.splits)
    from Cons.IH [OF this] obtain cs where "xs = cs @ CHR '';'' # rest"
      "list_all (in_cls AlnumC) cs" "g = take (length go - length (CHR '';'' # rest)) go"
      by blast
    with True show ?thesis
      by (intro exI [of _ "x # cs"]) (simp del: in_cls.simps)
  next
    case False
    with Cons.prems have "x = CHR '';''" "rest = xs" "g = take (length go - length (x # xs)) go"
      by (auto simp del: in_cls.simps split: if_splits)
    then show ?thesis
      by (intro exI [of _ "[]"]) simp
  qed
qed

lemma charref_shape:
  assumes "rmatch namedCharRefPattern b s go gc = Some (rest, g)"
  shows "\<exists>c cs. s = CHR ''&'' # c # cs @ CHR '';'' # rest \<and> (is_lower c \<or> is_upper c)
              \<and> list_all (in_cls AlnumC) cs \<and> g = c # cs"
proof -
  from assms obtain c t where s: "s = CHR ''&'' # c # t" and c: "is_lower c \<or> is_upper c"
    and m: "rmatch [StarG AlnumC, GClose, Lit CHR '';''] False t (c # t) gc = Some (rest, g)"
    by (cases s; cases "tl s")
       (auto simp: namedCharRefPattern_def simp del: rmatch.simps(8,9) split: if_splits)
  from star_alnum [OF m] obtain cs where t: "t = cs @ CHR '';'' # rest"
    and cs: "list_all (in_cls AlnumC) cs"
    and g: "g = take (length (c # t) - length (CHR '';'' # rest)) (c # t)"
    by blast
  from g t have "g = c # cs" by simp
  with s t c cs show ?thesis by blast
qed

lemma find_all_sound:
  "(start, ref, name) \<in> set (find_all re b pos s) \<Longrightarrow>
   \<exists>k b' rest. start = pos + k \<and> k < length s
     \<and> rmatch re b' (drop k s) (drop k s) (drop k s) = Some (rest, name)
     \<and> ref = take (length (drop k s) - length rest) (drop k s)"
proof (induction re b pos s rule: find_all.induct)
  case (1 re b pos)
  then show ?case by simp
next
  case (2 re b pos x xs)
  let ?s = "x # xs"
  show ?case
  proof (cases "rmatch re b ?s ?s ?s")
    case None
    with "2.prems" have "(start, ref, name) \<in> set (find_all re False (pos + 1) xs)" by simp
    from "2.IH"(1) [OF None this] obtain k b' rest where
      "start = pos + 1 + k" "k < length xs"
      "rmatch re b' (drop k xs) (drop k xs) (drop k xs) = Some (rest, name)"
      "ref = take (length (drop k xs) - length rest) (drop k xs)"
      by blast
    then show ?thesis
      by (intro exI [of _ "Suc k"] exI [of _ b'] exI [of _ rest]) simp
  next
    case (Some r)
    obtain rest g1 where r: "r = (rest, g1)" by (cases r)
    show ?thesis
    proof (cases "length rest < length ?s")
      case True
      from rmatch_suffix Some r obtain pre where pre: "?s = pre @ rest" by blast
      with True have lp: "length ?s - length rest = length pre" "pre \<noteq> []" by auto
      from "2.prems" Some r True
      consider "(start, ref, name) = (pos, take (length ?s - length rest) ?s, g1)"
        | "(start, ref, name) \<in> set (find_all re False (pos + (length ?s - length rest)) rest)"
        by auto
      then show ?thesis
      proof cases
        case 1
        with Some r show ?thesis
          by (intro exI [of _ 0] exI [of _ b] exI [of _ rest]) simp
      next
        case 2
        from "2.IH"(2) [OF Some r [symmetric] True 2] obtain k b' rest' where
          k: "start = pos + (length ?s - length rest) + k" "k < length rest"
          "rmatch re b' (drop k rest) (drop k rest) (drop k rest) = Some (rest', name)"
          "ref = take (length (drop k rest) - length rest') (drop k rest)"
          by blast
        have d: "drop (length pre + k) ?s = drop k rest"
          using pre by (metis add.commute append_eq_conv_conj drop_drop)
        have "length ?s = length pre + length rest"
          using pre by (metis length_append)
        with k(2) have len: "length pre + k < length ?s" by linarith
        from k(1) lp(1) have st: "start = pos + (length pre + k)" by linarith
        from k(3,4) have m: "rmatch re b' (drop (length pre + k) ?s) (drop (length pre + k) ?s)
            (drop (length pre + k) ?s) = Some (rest', name)"
          "ref = take (length (drop (length pre + k) ?s) - length rest') (drop (length pre + k) ?s)"
          unfolding d by simp_all
        from st len m show ?thesis by blast
      qed
    next
      case False
      with "2.prems" Some r have "(start, ref, name) \<in> set (find_all re False (pos + 1) xs)"
        by simp
      from "2.IH"(3) [OF Some r [symmetric] False this] obtain k b' rest' where
        "start = pos + 1 + k" "k < length xs"
        "rmatch re b' (drop k xs) (drop k xs) (drop k xs) = Some (rest', name)"
        "ref = take (length (drop k xs) - length rest') (drop k xs)"
        by blast
      then show ?thesis
        by (intro exI [of _ "Suc k"] exI [of _ b'] exI [of _ rest']) simp
    qed
  qed
qed


lemma take_ref':
  "take (length (a # c # cs @ d # rest) - length rest) (a # c # cs @ d # rest) = a # c # cs @ [d]"
proof -
  have "a # c # cs @ d # rest = (a # c # cs @ [d]) @ rest" by simp
  then show ?thesis by (metis add_diff_cancel_right' append_eq_conv_conj length_append)
qed

lemma FindAll_shape:
  assumes "(start, ref, name) \<in> set (FindAllStringSubmatchIndex namedCharRefPattern line)"
  shows "\<exists>c cs. name = c # cs \<and> (is_lower c \<or> is_upper c) \<and> list_all (in_cls AlnumC) cs"
    and "ref = CHR ''&'' # name @ '';''"
    and "take (length ref) (drop start line) = ref"
proof -
  from find_all_sound [OF assms [unfolded FindAllStringSubmatchIndex_def]]
  obtain b' rest where
    m: "rmatch namedCharRefPattern b' (drop start line) (drop start line) (drop start line)
        = Some (rest, name)"
    and r: "ref = take (length (drop start line) - length rest) (drop start line)"
    by auto
  from charref_shape [OF m] obtain c cs where
    d: "drop start line = CHR ''&'' # c # cs @ CHR '';'' # rest"
    and c: "is_lower c \<or> is_upper c" and cs: "list_all (in_cls AlnumC) cs" and n: "name = c # cs"
    by blast
  from c cs n show "\<exists>c cs. name = c # cs \<and> (is_lower c \<or> is_upper c) \<and> list_all (in_cls AlnumC) cs"
    by blast
  from r d n show ref: "ref = CHR ''&'' # name @ '';''"
    by (simp only: take_ref') simp
  have "drop start line = ref @ rest"
    using ref d n by simp
  then show "take (length ref) (drop start line) = ref"
    by simp
qed

lemma refResults_flag:
  assumes "m \<in> set (FindAllStringSubmatchIndex namedCharRefPattern line)"
  shows "refResults unescape filename line lineNum m = flag_reference unescape filename lineNum line m"
proof -
  obtain start ref name where m: "m = (start, ref, name)" by (cases m)
  from FindAll_shape(2) [OF assms [unfolded m]] have "ref = CHR ''&'' # name @ '';''" .
  then show ?thesis
    by (simp add: m refResults_def flag_reference_def)
qed

lemma CheckRaw_flag:
  "CheckRaw unescape filename content =
     concat (map (\<lambda>(lineNum, line).
                    concat (map (flag_reference unescape filename lineNum line)
                                (FindAllStringSubmatchIndex namedCharRefPattern line)))
                 (enumerate 0 (Split content CHR 0x0A)))"
proof -
  have "lineResults unescape filename nl =
        (case nl of (lineNum, line) \<Rightarrow>
           concat (map (flag_reference unescape filename lineNum line)
                       (FindAllStringSubmatchIndex namedCharRefPattern line)))" for nl
    by (cases nl) (simp add: lineResults_def refResults_flag cong: map_cong)
  then show ?thesis
    by (simp add: CheckRaw_def Let_def cong: map_cong)
qed

lemma star_alnum_match:
  "list_all (in_cls AlnumC) cs \<Longrightarrow>
   rmatch [StarG AlnumC, GClose, Lit CHR '';''] b (cs @ CHR '';'' # rest) go gc0
   = Some (rest, take (length go - length (CHR '';'' # rest)) go)"
proof (induction cs arbitrary: b)
  case Nil
  show ?case using not_alnum_semicolon by (simp del: in_cls.simps)
next
  case (Cons x cs)
  then have "in_cls AlnumC x" "list_all (in_cls AlnumC) cs"
    by (simp_all del: in_cls.simps)
  with Cons.IH [of False] show ?case by (simp del: in_cls.simps)
qed

lemma charref_match:
  assumes "is_lower c \<or> is_upper c" and "list_all (in_cls AlnumC) cs"
  shows "rmatch namedCharRefPattern b (CHR ''&'' # c # cs @ CHR '';'' # rest) go gc
         = Some (rest, c # cs)"
  using assms(1) star_alnum_match [OF assms(2), of False rest "c # cs @ CHR '';'' # rest"]
  by (simp add: namedCharRefPattern_def del: rmatch.simps(8,9) in_cls.simps(6))

lemma not_amp: "\<not> in_cls AlnumC CHR ''&''" "CHR ''&'' \<noteq> CHR '';''"
  "\<not> (is_lower CHR ''&'' \<or> is_upper CHR ''&'')"
  by (simp_all add: is_lower_def is_upper_def is_digit_def)



lemma find_all_complete:
  assumes "drop k s = CHR ''&'' # c # cs @ CHR '';'' # rest"
    and "is_lower c \<or> is_upper c" and "list_all (in_cls AlnumC) cs"
  shows "(pos + k, CHR ''&'' # c # cs @ '';'', c # cs) \<in> set (find_all namedCharRefPattern b pos s)"
  using assms(1)
proof (induction namedCharRefPattern b pos s arbitrary: k rule: find_all.induct)
  case (1 b pos)
  then show ?case by simp
next
  case (2 b pos x xs)
  let ?s = "x # xs"
  let ?ref = "CHR ''&'' # c # cs @ '';''"
  show ?case
  proof (cases k)
    case 0
    with "2.prems" have s: "?s = CHR ''&'' # c # cs @ CHR '';'' # rest" by simp
    have m: "rmatch namedCharRefPattern b ?s ?s ?s = Some (rest, c # cs)"
      unfolding s by (rule charref_match [OF assms(2,3)])
    have l: "length rest < length ?s"
      unfolding s by simp
    have t: "take (length ?s - length rest) ?s = ?ref"
      unfolding s by (simp only: take_ref')
    from m l t 0 show ?thesis by simp
  next
    case (Suc j)
    with "2.prems" have dj: "drop j xs = CHR ''&'' # c # cs @ CHR '';'' # rest" by simp
    show ?thesis
    proof (cases "rmatch namedCharRefPattern b ?s ?s ?s")
      case None
      from "2.hyps"(1) [OF None dj] None Suc show ?thesis by simp
    next
      case (Some r)
      obtain rest0 g0 where r: "r = (rest0, g0)" by (cases r)
      from charref_shape Some r obtain c0 cs0 where
        s: "?s = CHR ''&'' # c0 # cs0 @ CHR '';'' # rest0"
        and c0: "is_lower c0 \<or> is_upper c0" and cs0: "list_all (in_cls AlnumC) cs0"
        by blast
      let ?body = "c0 # cs0 @ '';''"
      let ?pre = "CHR ''&'' # ?body"
      have pre: "?s = ?pre @ rest0" using s by simp
      have prog: "length rest0 < length ?s"
        using s by simp
      have diff: "length ?s - length rest0 = length ?pre"
        unfolding s by simp
      have kk: "length ?pre \<le> k"
      proof (rule ccontr)
        assume "\<not> length ?pre \<le> k"
        then have lt: "k < length ?pre" by simp
        with Suc have j: "j < length ?body" by simp
        have "k < length ?s" using lt pre by (metis length_append trans_less_add1)
        then have "hd (drop k ?s) = ?s ! k" by (rule hd_drop_conv_nth)
        with "2.prems" have "?s ! k = CHR ''&''" by simp
        moreover have "?s ! k = ?pre ! k"
          unfolding pre using lt by (simp only: nth_append if_True)
        moreover have "?pre ! k = ?body ! j" using Suc by simp
        moreover have "?body ! j \<in> set ?body" using j by (rule nth_mem)
        ultimately have "CHR ''&'' \<in> set ?body" by simp
        with c0 cs0 not_amp show False
          by (auto simp: list_all_iff simp del: in_cls.simps)
      qed
      then obtain k' where k': "k = length ?pre + k'" using le_Suc_ex by blast
      have "drop (length ?pre + k') (?pre @ rest0) = drop k' rest0" by simp
      then have "drop k ?s = drop k' rest0" unfolding k' pre .
      with "2.prems" have d': "drop k' rest0 = CHR ''&'' # c # cs @ CHR '';'' # rest" by simp
      have eq: "pos + (length ?s - length rest0) + k' = pos + k"
        unfolding diff k' by simp
      from "2.hyps"(2) [OF Some r [symmetric] prog d']
      have "(pos + (length ?s - length rest0) + k', ?ref, c # cs)
            \<in> set (find_all namedCharRefPattern False (pos + (length ?s - length rest0)) rest0)" .
      then have "(pos + k, ?ref, c # cs)
            \<in> set (find_all namedCharRefPattern False (pos + (length ?s - length rest0)) rest0)"
        unfolding eq .
      with Some r prog show ?thesis by simp
    qed
  qed
qed

lemma FindAll_iff:
  "((start, ref, name) \<in> set (FindAllStringSubmatchIndex namedCharRefPattern line))
   = (\<exists>c cs rest. drop start line = CHR ''&'' # c # cs @ CHR '';'' # rest
        \<and> (is_lower c \<or> is_upper c) \<and> list_all (in_cls AlnumC) cs
        \<and> name = c # cs \<and> ref = CHR ''&'' # name @ '';'')"
proof
  assume a: "(start, ref, name) \<in> set (FindAllStringSubmatchIndex namedCharRefPattern line)"
  from find_all_sound [OF a [unfolded FindAllStringSubmatchIndex_def]]
  obtain b' rest where
    m: "rmatch namedCharRefPattern b' (drop start line) (drop start line) (drop start line)
        = Some (rest, name)"
    by auto
  from charref_shape [OF m] obtain c cs where
    "drop start line = CHR ''&'' # c # cs @ CHR '';'' # rest"
    "is_lower c \<or> is_upper c" "list_all (in_cls AlnumC) cs" "name = c # cs"
    by blast
  with FindAll_shape(2) [OF a]
  show "\<exists>c cs rest. drop start line = CHR ''&'' # c # cs @ CHR '';'' # rest
        \<and> (is_lower c \<or> is_upper c) \<and> list_all (in_cls AlnumC) cs
        \<and> name = c # cs \<and> ref = CHR ''&'' # name @ '';''"
    by blast
next
  assume "\<exists>c cs rest. drop start line = CHR ''&'' # c # cs @ CHR '';'' # rest
        \<and> (is_lower c \<or> is_upper c) \<and> list_all (in_cls AlnumC) cs
        \<and> name = c # cs \<and> ref = CHR ''&'' # name @ '';''"
  then obtain c cs rest where d: "drop start line = CHR ''&'' # c # cs @ CHR '';'' # rest"
    and c: "is_lower c \<or> is_upper c" and cs: "list_all (in_cls AlnumC) cs"
    and n: "name = c # cs" and r: "ref = CHR ''&'' # name @ '';''"
    by blast
  from find_all_complete [OF d c cs, of 0 True] n r
  show "(start, ref, name) \<in> set (FindAllStringSubmatchIndex namedCharRefPattern line)"
    by (simp add: FindAllStringSubmatchIndex_def)
qed

subsection \<open>The results\<close>

text \<open>
  C7, amended. For every content, \<open>CheckRaw\<close> returns, line by line and reference by
  reference, a Warning exactly when the reference is not inside a template expression of
  its line and unescaping leaves it unchanged. The references of a line are the
  occurrences of an ampersand, a letter, letters or digits and a semicolon, so a numeric
  reference is never looked up. \<open>html.UnescapeString\<close> is a parameter: when it leaves
  \<open>&foobar;\<close> as it is, \<open>&foobar;\<close> gives a Warning; when it rewrites \<open>&amp;\<close> and \<open>&copy;\<close>,
  they give nothing; \<open>&#8212;\<close> and \<open>&#x2014;\<close> give nothing, and neither does \<open>&foobar;\<close>
  inside a template expression.
\<close>

theorem CheckRaw_references:
  "CheckRaw unescape filename content =
     concat (map (\<lambda>(lineNum, line).
                    concat (map (flag_reference unescape filename lineNum line)
                                (FindAllStringSubmatchIndex namedCharRefPattern line)))
                 (enumerate 0 (Split content CHR 0x0A)))
   \<and> ((start, ref, name) \<in> set (FindAllStringSubmatchIndex namedCharRefPattern line))
       = (\<exists>c cs rest. drop start line = CHR ''&'' # c # cs @ CHR '';'' # rest
            \<and> (is_lower c \<or> is_upper c) \<and> list_all (in_cls AlnumC) cs
            \<and> name = c # cs \<and> ref = CHR ''&'' # name @ '';'')
   \<and> (unescape ''&foobar;'' = ''&foobar;'' \<longrightarrow>
        CheckRaw unescape filename ''<p>&foobar;</p>''
          = [mkResult RuleUnrecognizedCharRef ''unrecognized character reference &foobar;''
               filename 1 4 Warning])
   \<and> (unescape ''&amp;'' \<noteq> ''&amp;'' \<longrightarrow>
        CheckRaw unescape filename ''<p>Tom &amp; Jerry</p>'' = [])
   \<and> (unescape ''&copy;'' \<noteq> ''&copy;'' \<longrightarrow>
        CheckRaw unescape filename ''<p>&copy; 2024</p>'' = [])
   \<and> CheckRaw unescape filename ''<p>&#8212;</p>'' = []
   \<and> CheckRaw unescape filename ''<p>&#x2014;</p>'' = []
   \<and> CheckRaw unescape filename ''<p>{{ &foobar; }}</p>'' = []"
proof (intro conjI impI)
  show "CheckRaw unescape filename content =
     concat (map (\<lambda>(lineNum, line).
                    concat (map (flag_reference unescape filename lineNum line)
                                (FindAllStringSubmatchIndex namedCharRefPattern line)))
                 (enumerate 0 (Split content CHR 0x0A)))"
    by (rule CheckRaw_flag)
  show "((start, ref, name) \<in> set (FindAllStringSubmatchIndex namedCharRefPattern line))
       = (\<exists>c cs rest. drop start line = CHR ''&'' # c # cs @ CHR '';'' # rest
            \<and> (is_lower c \<or> is_upper c) \<and> list_all (in_cls AlnumC) cs
            \<and> name = c # cs \<and> ref = CHR ''&'' # name @ '';'')"
    by (rule FindAll_iff)
  have s1: "Split ''<p>&foobar;</p>'' CHR 0x0A = [''<p>&foobar;</p>'']"
    and m1: "FindAllStringSubmatchIndex namedCharRefPattern ''<p>&foobar;</p>''
             = [(3, ''&foobar;'', ''foobar'')]"
    and t1: "\<not> isInsideTemplateExpr ''<p>&foobar;</p>'' 3"
    by code_simp+
  show "CheckRaw unescape filename ''<p>&foobar;</p>''
           = [mkResult RuleUnrecognizedCharRef ''unrecognized character reference &foobar;''
                filename 1 4 Warning]"
    if "unescape ''&foobar;'' = ''&foobar;''"
    using that by (simp add: CheckRaw_def lineResults_def refResults_def s1 m1 t1)
  have s2: "Split ''<p>Tom &amp; Jerry</p>'' CHR 0x0A = [''<p>Tom &amp; Jerry</p>'']"
    and m2: "FindAllStringSubmatchIndex namedCharRefPattern ''<p>Tom &amp; Jerry</p>''
             = [(7, ''&amp;'', ''amp'')]"
    by code_simp+
  show "CheckRaw unescape filename ''<p>Tom &amp; Jerry</p>'' = []"
    if "unescape ''&amp;'' \<noteq> ''&amp;''"
    using that by (simp add: CheckRaw_def lineResults_def refResults_def s2 m2)
  have s3: "Split ''<p>&copy; 2024</p>'' CHR 0x0A = [''<p>&copy; 2024</p>'']"
    and m3: "FindAllStringSubmatchIndex namedCharRefPattern ''<p>&copy; 2024</p>''
             = [(3, ''&copy;'', ''copy'')]"
    by code_simp+
  show "CheckRaw unescape filename ''<p>&copy; 2024</p>'' = []"
    if "unescape ''&copy;'' \<noteq> ''&copy;''"
    using that by (simp add: CheckRaw_def lineResults_def refResults_def s3 m3)
  show "CheckRaw unescape filename ''<p>&#8212;</p>'' = []"
    by code_simp
  show "CheckRaw unescape filename ''<p>&#x2014;</p>'' = []"
    by code_simp
  show "CheckRaw unescape filename ''<p>{{ &foobar; }}</p>'' = []"
    by code_simp
qed

theorem CheckRaw_references_witness:
  "unescape_two ''&foobar;'' = ''&foobar;''
   \<and> unescape_two ''&amp;'' \<noteq> ''&amp;''
   \<and> unescape_two ''&copy;'' \<noteq> ''&copy;''
   \<and> CheckRaw unescape_two ''test.html'' ''<p>&foobar;</p>''
       = [mkResult RuleUnrecognizedCharRef ''unrecognized character reference &foobar;''
            ''test.html'' 1 4 Warning]
   \<and> CheckRaw unescape_two ''test.html'' ''<p>Tom &amp; Jerry</p>'' = []
   \<and> CheckRaw unescape_two ''test.html'' ''<p>&copy; 2024</p>'' = []
   \<and> (3, ''&foobar;'', ''foobar'')
       \<in> set (FindAllStringSubmatchIndex namedCharRefPattern ''<p>&foobar;</p>'')"
proof -
  have u: "unescape_two ''&foobar;'' = ''&foobar;''" "unescape_two ''&amp;'' \<noteq> ''&amp;''"
    "unescape_two ''&copy;'' \<noteq> ''&copy;''"
    by (simp_all add: unescape_two_def)
  have d: "drop 3 ''<p>&foobar;</p>'' = CHR ''&'' # CHR ''f'' # ''oobar'' @ CHR '';'' # ''</p>''"
    "is_lower CHR ''f'' \<or> is_upper CHR ''f''" "list_all (in_cls AlnumC) ''oobar''"
    by code_simp+
  note w = CheckRaw_references [where unescape = unescape_two and filename = "''test.html''"
      and start = 3 and ref = "''&foobar;''" and name = "''foobar''" and line = "''<p>&foobar;</p>''"]
  note c2 = w [THEN conjunct2, THEN conjunct1]
  note c3 = w [THEN conjunct2, THEN conjunct2, THEN conjunct1, rule_format, OF u(1)]
  note c4 = w [THEN conjunct2, THEN conjunct2, THEN conjunct2, THEN conjunct1, rule_format, OF u(2)]
  note c5 = w [THEN conjunct2, THEN conjunct2, THEN conjunct2, THEN conjunct2, THEN conjunct1,
      rule_format, OF u(3)]
  have "(3, ''&foobar;'', ''foobar'')
        \<in> set (FindAllStringSubmatchIndex namedCharRefPattern ''<p>&foobar;</p>'')"
    unfolding c2 using d by (intro exI [of _ "CHR ''f''"] exI [of _ "''oobar''"] exI [of _ "''</p>''"]) simp
  with u c3 c4 c5 show ?thesis by blast
qed

text \<open>
  C7 as stated fails on a reference inside a template expression: unescaping leaves
  \<open>&foobar;\<close> unchanged, the scan pattern finds it, and \<open>CheckRaw\<close> returns nothing for
  \<open>{{ &foobar; }}\<close>, because it skips a match that follows an open \<open>{{\<close> on its line.
\<close>

theorem CheckRaw_skips_template_expression:
  "unescape_two ''&foobar;'' = ''&foobar;''
   \<and> FindAllStringSubmatchIndex namedCharRefPattern ''<p>{{ &foobar; }}</p>''
       = [(6, ''&foobar;'', ''foobar'')]
   \<and> isInsideTemplateExpr ''<p>{{ &foobar; }}</p>'' 6
   \<and> CheckRaw unescape_two ''test.html'' ''<p>{{ &foobar; }}</p>'' = []"
proof (intro conjI)
  show "unescape_two ''&foobar;'' = ''&foobar;''"
    by (simp add: unescape_two_def)
  show "FindAllStringSubmatchIndex namedCharRefPattern ''<p>{{ &foobar; }}</p>''
       = [(6, ''&foobar;'', ''foobar'')]"
    by code_simp
  show "isInsideTemplateExpr ''<p>{{ &foobar; }}</p>'' 6"
    by code_simp
  show "CheckRaw unescape_two ''test.html'' ''<p>{{ &foobar; }}</p>'' = []"
    by code_simp
qed

end
